theory Spec2Isabelle
  imports Complex_Main "HOL-Library.Word"
begin

unbundle bit_operations_syntax

section \<open>Strings\<close>

text \<open>
  A JavaScript string is modelled as a \<^typ>\<open>string\<close>: a list of 8-bit characters, each
  one code unit in the Latin-1 range. The operations below are the methods of
  \<^verbatim>\<open>String.prototype\<close> that the worker calls, restricted to that range.
\<close>

definition isUpperChar :: "char \<Rightarrow> bool" where
  "isUpperChar c = (let n = (of_char c :: nat) in
     (65 \<le> n \<and> n \<le> 90) \<or> (192 \<le> n \<and> n \<le> 222 \<and> n \<noteq> 215))"

text \<open>Lower case is 32 above upper case: bit 5 of the code unit is set.\<close>

definition toLowerChar :: "char \<Rightarrow> char" where
  "toLowerChar c = (if isUpperChar c
     then (case c of Char b0 b1 b2 b3 b4 b5 b6 b7 \<Rightarrow> Char b0 b1 b2 b3 b4 True b6 b7)
     else c)"

definition toLowerCase :: "string \<Rightarrow> string" where
  "toLowerCase s = map toLowerChar s"

fun startsWith :: "string \<Rightarrow> string \<Rightarrow> bool" where
  "startsWith s [] = True"
| "startsWith [] (p # ps) = False"
| "startsWith (c # cs) (p # ps) = (c = p \<and> startsWith cs ps)"

text \<open>\<^verbatim>\<open>text.includes(keyword)\<close>: the keyword starts at some position of the text.\<close>

fun includesStr :: "string \<Rightarrow> string \<Rightarrow> bool" where
  "includesStr [] k = (k = [])"
| "includesStr (c # cs) k = (startsWith (c # cs) k \<or> includesStr cs k)"

section \<open>Configuration (config/sources.json)\<close>

text \<open>
  The worker imports its feeds and keyword lists from \<^verbatim>\<open>config/sources.json\<close>. The
  functions below take that object as their first argument.
\<close>

record rss_feed =
  name :: string
  url :: string
  category :: string

record content_filters_cfg =
  required_la_keywords :: "string list"
  min_good_vibes_score :: int

record sources_cfg =
  rss_feeds :: "rss_feed list"
  negative_keywords :: "string list"
  good_vibes_keywords :: "string list"
  content_filters :: content_filters_cfg

section \<open>Items\<close>

text \<open>
  \<^verbatim>\<open>parseRSSItems\<close> (content-sourcer.js) builds \<^verbatim>\<open>{title, link, description}\<close>;
  \<^verbatim>\<open>parseRSSFeed\<close> (the router) builds \<^verbatim>\<open>{title, link, excerpt, source}\<close>.
\<close>

record item_base =
  title :: string
  link :: string

record rss_item = item_base +
  description :: string

record router_item = item_base +
  excerpt :: string
  source :: string

section \<open>The Good Vibes filter of content-sourcer.js\<close>

definition itemText :: "rss_item \<Rightarrow> string" where
  "itemText item = toLowerCase (title item @ '' '' @ description item)"

definition hasNegative :: "sources_cfg \<Rightarrow> string \<Rightarrow> bool" where
  "hasNegative sources text =
     list_ex (\<lambda>keyword. includesStr text (toLowerCase keyword)) (negative_keywords sources)"

definition goodVibesScore :: "sources_cfg \<Rightarrow> string \<Rightarrow> nat" where
  "goodVibesScore sources text =
     foldl (\<lambda>score keyword. if includesStr text (toLowerCase keyword) then score + 1 else score)
       0 (good_vibes_keywords sources)"

definition hasLAKeyword :: "sources_cfg \<Rightarrow> string \<Rightarrow> bool" where
  "hasLAKeyword sources text =
     list_ex (\<lambda>keyword. includesStr text (toLowerCase keyword))
       (required_la_keywords (content_filters sources))"

text \<open>The callback of \<^verbatim>\<open>items.filter\<close> in \<^verbatim>\<open>filterGoodVibesContent\<close>.\<close>

definition keepGoodVibesContent :: "sources_cfg \<Rightarrow> rss_item \<Rightarrow> bool" where
  "keepGoodVibesContent sources item =
     (let text = itemText item in
      if hasNegative sources text then False
      else min_good_vibes_score (content_filters sources) \<le> int (goodVibesScore sources text)
           \<and> hasLAKeyword sources text)"

definition filterGoodVibesContent :: "sources_cfg \<Rightarrow> rss_item list \<Rightarrow> rss_item list" where
  "filterGoodVibesContent sources items = filter (keepGoodVibesContent sources) items"

section \<open>The Good Vibes filter of the router\<close>

definition bannedWords :: "string list" where
  "bannedWords = [''crime'', ''shooting'', ''murder'', ''death'', ''accident'']"

definition goodWords :: "string list" where
  "goodWords = [''art'', ''music'', ''food'', ''culture'', ''community'', ''festival'']"

definition routerText :: "router_item \<Rightarrow> string" where
  "routerText item = toLowerCase (title item @ '' '' @ excerpt item)"

text \<open>
  \<^verbatim>\<open>Math.random()\<close> is a sequence of draws \<open>rnd 0, rnd 1, \<dots>\<close> and the number of draws
  taken so far. \<^verbatim>\<open>hasPositive || Math.random() > 0.3\<close> draws only when no good word
  was found.
\<close>

definition keepGoodVibes :: "(nat \<Rightarrow> real) \<Rightarrow> nat \<Rightarrow> router_item \<Rightarrow> bool \<times> nat" where
  "keepGoodVibes rnd k item =
     (let text = routerText item in
      if list_ex (\<lambda>word. includesStr text word) bannedWords then (False, k)
      else if list_ex (\<lambda>word. includesStr text word) goodWords then (True, k)
      else (rnd k > 3 / 10, k + 1))"

fun filterGoodVibes :: "(nat \<Rightarrow> real) \<Rightarrow> nat \<Rightarrow> router_item list \<Rightarrow> router_item list \<times> nat" where
  "filterGoodVibes rnd k [] = ([], k)"
| "filterGoodVibes rnd k (item # rest) =
     (let (keep, k') = keepGoodVibes rnd k item;
          (kept, k'') = filterGoodVibes rnd k' rest
      in (if keep then item # kept else kept, k''))"

section \<open>Exceptions\<close>

text \<open>
  A thrown exception is a value: a function that can throw returns \<open>js_error + 'a\<close>, and
  \<open>bindE\<close> passes the first exception on, as the statements of a \<^verbatim>\<open>try\<close> block do.
\<close>

datatype js_error = TypeError | NetworkError | StoreError

definition bindE :: "js_error + 'a \<Rightarrow> ('a \<Rightarrow> js_error + 'b) \<Rightarrow> js_error + 'b" where
  "bindE m f = (case m of Inl e \<Rightarrow> Inl e | Inr x \<Rightarrow> f x)"

section \<open>Regular expressions of the item extractors\<close>

text \<open>
  Each matcher below is one piece of a regular expression of the source, matched at the
  head of the string, with the backtracking priority of JavaScript; it returns the text it
  consumed and the rest. Under the \<^verbatim>\<open>i\<close> flag a letter of the pattern matches both of
  its cases.
\<close>

definition toUpperAscii :: "char \<Rightarrow> char" where
  "toUpperAscii c = (if 97 \<le> (of_char c :: nat) \<and> (of_char c :: nat) \<le> 122
     then (case c of Char b0 b1 b2 b3 b4 b5 b6 b7 \<Rightarrow> Char b0 b1 b2 b3 b4 False b6 b7)
     else c)"

definition eqCI :: "char \<Rightarrow> char \<Rightarrow> bool" where
  "eqCI c p = (toUpperAscii c = toUpperAscii p)"

text \<open>A literal of the pattern, under the \<^verbatim>\<open>i\<close> flag.\<close>

fun matchLiteralCI :: "string \<Rightarrow> string \<Rightarrow> (string \<times> string) option" where
  "matchLiteralCI [] s = Some ([], s)"
| "matchLiteralCI (p # ps) [] = None"
| "matchLiteralCI (p # ps) (c # cs) =
     (if eqCI c p
      then (case matchLiteralCI ps cs of None \<Rightarrow> None | Some (m, r) \<Rightarrow> Some (c # m, r))
      else None)"

text \<open>\<^verbatim>\<open>[^>]*>\<close>: everything up to the first \<^verbatim>\<open>>\<close>, and that character.\<close>

fun matchToGt :: "string \<Rightarrow> (string \<times> string) option" where
  "matchToGt [] = None"
| "matchToGt (c # cs) =
     (if c = CHR ''>'' then Some ([c], cs)
      else (case matchToGt cs of None \<Rightarrow> None | Some (m, r) \<Rightarrow> Some (c # m, r)))"

definition isLineTerminator :: "char \<Rightarrow> bool" where
  "isLineTerminator c = (c = CHR 0x0A \<or> c = CHR 0x0D)"

text \<open>
  \<^verbatim>\<open>[\s\S]*?close\<close> (\<open>dotAll = True\<close>) and \<^verbatim>\<open>.*?close\<close> (\<open>dotAll = False\<close>, where
  the dot stops at a line terminator): the shortest text after which \<open>close\<close> matches. The
  result is the text, the match of \<open>close\<close> and the rest.
\<close>

fun matchLazyTo :: "bool \<Rightarrow> string \<Rightarrow> string \<Rightarrow> (string \<times> string \<times> string) option" where
  "matchLazyTo dotAll close [] =
     (case matchLiteralCI close [] of None \<Rightarrow> None | Some (m, r) \<Rightarrow> Some ([], m, r))"
| "matchLazyTo dotAll close (c # cs) =
     (case matchLiteralCI close (c # cs) of
        Some (m, r) \<Rightarrow> Some ([], m, r)
      | None \<Rightarrow>
          if dotAll \<or> \<not> isLineTerminator c
          then (case matchLazyTo dotAll close cs of
                  None \<Rightarrow> None
                | Some (b, m, r) \<Rightarrow> Some (c # b, m, r))
          else None)"

text \<open>
  \<^verbatim>\<open><tag[^>]*>BODY</tag>\<close> at the head of the string, where BODY is \<^verbatim>\<open>[\s\S]*?\<close> or
  \<^verbatim>\<open>.*?\<close>: the whole match, the body and the rest.
\<close>

definition matchElementAt :: "bool \<Rightarrow> string \<Rightarrow> string \<Rightarrow> (string \<times> string \<times> string) option" where
  "matchElementAt dotAll tag s =
     (case matchLiteralCI (''<'' @ tag) s of
        None \<Rightarrow> None
      | Some (m1, r1) \<Rightarrow>
          (case matchToGt r1 of
             None \<Rightarrow> None
           | Some (m2, r2) \<Rightarrow>
               (case matchLazyTo dotAll (''</'' @ tag @ ''>'') r2 of
                  None \<Rightarrow> None
                | Some (b, m3, r3) \<Rightarrow> Some (m1 @ m2 @ b @ m3, b, r3))))"

text \<open>
  A search without the \<^verbatim>\<open>g\<close> flag (\<^verbatim>\<open>str.match(re)\<close>, \<^verbatim>\<open>re.exec(str)\<close>): the match at
  the first position that has one.
\<close>

fun searchFirst :: "(string \<Rightarrow> 'a option) \<Rightarrow> string \<Rightarrow> 'a option" where
  "searchFirst m [] = m []"
| "searchFirst m (c # cs) = (case m (c # cs) of Some x \<Rightarrow> Some x | None \<Rightarrow> searchFirst m cs)"

text \<open>
  The matches of \<^verbatim>\<open>/<item[^>]*>([\s\S]*?)<\/item>/gi\<close> from left to right, each with its
  group 1. After a match the search goes on at \<^verbatim>\<open>lastIndex\<close>, the end of the match:
  \<open>skip\<close> counts the characters still to pass before that position.
\<close>

fun itemMatchesFrom :: "nat \<Rightarrow> string \<Rightarrow> (string \<times> string) list" where
  "itemMatchesFrom skip [] = []"
| "itemMatchesFrom (Suc skip) (c # cs) = itemMatchesFrom skip cs"
| "itemMatchesFrom 0 (c # cs) =
     (case matchElementAt True ''item'' (c # cs) of
        None \<Rightarrow> itemMatchesFrom 0 cs
      | Some (m, b, r) \<Rightarrow> (m, b) # itemMatchesFrom (length m - 1) cs)"

section \<open>The item extractor of the router (parseRSSFeed)\<close>

text \<open>\<^verbatim>\<open>str.replace(/<[^>]*>/g, '')\<close>\<close>

fun stripTags :: "nat \<Rightarrow> string \<Rightarrow> string" where
  "stripTags skip [] = []"
| "stripTags (Suc skip) (c # cs) = stripTags skip cs"
| "stripTags 0 (c # cs) =
     (if c = CHR ''<''
      then (case matchToGt cs of
              None \<Rightarrow> c # stripTags 0 cs
            | Some (m, r) \<Rightarrow> stripTags (length m) cs)
      else c # stripTags 0 cs)"

text \<open>\<^verbatim>\<open>&[^;]+;\<close> at the head of the string: the length of the match.\<close>

definition matchEntityAt :: "string \<Rightarrow> nat option" where
  "matchEntityAt s =
     (case s of
        [] \<Rightarrow> None
      | c # cs \<Rightarrow>
          if c = CHR ''&''
          then (let name = takeWhile (\<lambda>x. x \<noteq> CHR '';'') cs in
                if name \<noteq> [] \<and> length name < length cs then Some (length name + 2) else None)
          else None)"

text \<open>\<^verbatim>\<open>str.replace(/&[^;]+;/g, ' ')\<close>\<close>

fun replaceEntities :: "nat \<Rightarrow> string \<Rightarrow> string" where
  "replaceEntities skip [] = []"
| "replaceEntities (Suc skip) (c # cs) = replaceEntities skip cs"
| "replaceEntities 0 (c # cs) =
     (case matchEntityAt (c # cs) of
        None \<Rightarrow> c # replaceEntities 0 cs
      | Some n \<Rightarrow> CHR '' '' # replaceEntities (n - 1) cs)"

definition isWhiteSpace :: "char \<Rightarrow> bool" where
  "isWhiteSpace c = ((of_char c :: nat) \<in> {9, 10, 11, 12, 13, 32, 160})"

definition trim :: "string \<Rightarrow> string" where
  "trim s = rev (dropWhile isWhiteSpace (rev (dropWhile isWhiteSpace s)))"

definition cleanHtml :: "string \<Rightarrow> string" where
  "cleanHtml str = trim (replaceEntities 0 (stripTags 0 str))"

text \<open>\<^verbatim>\<open>str.replace(pattern, replacement)\<close> with a string pattern: the first occurrence only.\<close>

fun replaceFirst :: "string \<Rightarrow> string \<Rightarrow> string \<Rightarrow> string" where
  "replaceFirst pat rep [] = (if pat = [] then rep else [])"
| "replaceFirst pat rep (c # cs) =
     (if startsWith (c # cs) pat then rep @ drop (length pat) (c # cs)
      else c # replaceFirst pat rep cs)"

text \<open>
  \<^verbatim>\<open>new URL(url).hostname\<close> is the platform's URL parser: \<open>URL urlText\<close> is the hostname, or
  the \<^verbatim>\<open>TypeError\<close> it throws on a string that is no URL.
\<close>

type_synonym url_parser = "string \<Rightarrow> js_error + string"

definition extractDomain :: "url_parser \<Rightarrow> string \<Rightarrow> string" where
  "extractDomain URL urlText =
     (case URL urlText of
        Inr hostname \<Rightarrow> replaceFirst ''www.'' [] hostname
      | Inl e \<Rightarrow> ''Unknown'')"

text \<open>
  \<^verbatim>\<open>item.match(/<tag[^>]*>(.*?)<\/tag>/i)\<close>: \<^verbatim>\<open>null\<close> or the match, of which the
  extractor reads group 1. Reading \<^verbatim>\<open>[1]\<close> of \<^verbatim>\<open>null\<close> throws.
\<close>

definition tagMatch :: "string \<Rightarrow> string \<Rightarrow> string option" where
  "tagMatch tag item =
     searchFirst (\<lambda>s. case matchElementAt False tag s of
                         None \<Rightarrow> None
                       | Some (m, b, r) \<Rightarrow> Some b) item"

definition group1 :: "string option \<Rightarrow> js_error + string" where
  "group1 m = (case m of None \<Rightarrow> Inl TypeError | Some g \<Rightarrow> Inr g)"

text \<open>The body of the loop of \<^verbatim>\<open>parseRSSFeed\<close>: the item it pushes, if any.\<close>

definition parseFeedItem :: "url_parser \<Rightarrow> string \<Rightarrow> js_error + router_item option" where
  "parseFeedItem URL item =
     (let titleMatch = tagMatch ''title'' item;
          linkMatch = tagMatch ''link'' item;
          descMatch = tagMatch ''description'' item
      in if titleMatch \<noteq> None \<and> linkMatch \<noteq> None
         then bindE (group1 titleMatch) (\<lambda>t.
              bindE (group1 linkMatch) (\<lambda>l.
              bindE (if descMatch \<noteq> None
                     then bindE (group1 descMatch) (\<lambda>d. Inr (take 200 (cleanHtml d) @ ''...''))
                     else Inr []) (\<lambda>e.
              Inr (Some \<lparr>title = cleanHtml t, link = trim l, excerpt = e,
                         source = extractDomain URL l\<rparr>))))
         else Inr None)"

fun parseFeedItems :: "url_parser \<Rightarrow> string list \<Rightarrow> router_item list \<Rightarrow> js_error + router_item list" where
  "parseFeedItems URL [] items = Inr items"
| "parseFeedItems URL (item # rest) items =
     bindE (parseFeedItem URL item) (\<lambda>pushed.
       parseFeedItems URL rest (case pushed of None \<Rightarrow> items | Some i \<Rightarrow> items @ [i]))"

definition parseRSSFeed :: "url_parser \<Rightarrow> string \<Rightarrow> nat \<Rightarrow> js_error + router_item list" where
  "parseRSSFeed URL xmlText maxItems =
     (let itemMatches = map fst (itemMatchesFrom 0 xmlText)
      in parseFeedItems URL (take (min (length itemMatches) maxItems) itemMatches) [])"

section \<open>The admin token (generateGhostJWT)\<close>

text \<open>\<^verbatim>\<open>str.split(sep)\<close> for a separator of one character.\<close>

fun splitOn :: "char \<Rightarrow> string \<Rightarrow> string list" where
  "splitOn sep [] = [[]]"
| "splitOn sep (c # cs) =
     (if c = sep then [] # splitOn sep cs
      else (case splitOn sep cs of
              [] \<Rightarrow> [[c]]
            | p # ps \<Rightarrow> (c # p) # ps))"

text \<open>
  \<^verbatim>\<open>JSON.stringify\<close> of a string: quotes around it, with the quote, the backslash and the
  control characters below 0x20 escaped.
\<close>

definition hexDigit :: "nat \<Rightarrow> char" where
  "hexDigit n = ''0123456789abcdef'' ! n"

definition quoteJSONChar :: "char \<Rightarrow> string" where
  "quoteJSONChar c =
     (let n = (of_char c :: nat) in
      if n = 8 then [CHR 0x5C, CHR ''b'']
      else if n = 9 then [CHR 0x5C, CHR ''t'']
      else if n = 10 then [CHR 0x5C, CHR ''n'']
      else if n = 12 then [CHR 0x5C, CHR ''f'']
      else if n = 13 then [CHR 0x5C, CHR ''r'']
      else if n = 34 then [CHR 0x5C, CHR 0x22]
      else if n = 92 then [CHR 0x5C, CHR 0x5C]
      else if n < 32 then [CHR 0x5C, CHR ''u'', CHR ''0'', CHR ''0'', hexDigit (n div 16), hexDigit (n mod 16)]
      else [c])"

definition quoteJSONString :: "string \<Rightarrow> string" where
  "quoteJSONString s = [CHR 0x22] @ concat (map quoteJSONChar s) @ [CHR 0x22]"

text \<open>\<^verbatim>\<open>JSON.stringify\<close> of a non-negative integer: its decimal digits.\<close>

fun showNat :: "nat \<Rightarrow> string" where
  "showNat n =
     (if n < 10 then [''0123456789'' ! n]
      else showNat (n div 10) @ [''0123456789'' ! (n mod 10)])"

text \<open>
  \<^verbatim>\<open>JSON.stringify(header)\<close> and \<^verbatim>\<open>JSON.stringify(payload)\<close>, the properties in the order
  the object literals list them.
\<close>

definition stringifyHeader :: "string \<Rightarrow> string" where
  "stringifyHeader kid =
     [CHR ''{'', CHR 0x22] @ ''alg'' @ [CHR 0x22, CHR '':''] @ quoteJSONString ''HS256''
     @ [CHR '','', CHR 0x22] @ ''typ'' @ [CHR 0x22, CHR '':''] @ quoteJSONString ''JWT''
     @ [CHR '','', CHR 0x22] @ ''kid'' @ [CHR 0x22, CHR '':''] @ quoteJSONString kid
     @ [CHR ''}'']"

definition stringifyPayload :: "nat \<Rightarrow> nat \<Rightarrow> string" where
  "stringifyPayload iat expiry =
     [CHR ''{'', CHR 0x22] @ ''iat'' @ [CHR 0x22, CHR '':''] @ showNat iat
     @ [CHR '','', CHR 0x22] @ ''exp'' @ [CHR 0x22, CHR '':''] @ showNat expiry
     @ [CHR '','', CHR 0x22] @ ''aud'' @ [CHR 0x22, CHR '':''] @ quoteJSONString ''/admin/''
     @ [CHR ''}'']"

text \<open>
  \<^verbatim>\<open>btoa\<close>: base64 with padding. It throws on a code unit above 255; a \<^typ>\<open>char\<close> has
  none.
\<close>

definition b64chars :: string where
  "b64chars = ''ABCDEFGHIJKLMNOPQRSTUVWXYZabcdefghijklmnopqrstuvwxyz0123456789+/''"

definition b64 :: "nat \<Rightarrow> char" where
  "b64 n = b64chars ! n"

fun btoa :: "string \<Rightarrow> string" where
  "btoa [] = []"
| "btoa [a] =
     [b64 ((of_char a :: nat) div 4), b64 (((of_char a :: nat) mod 4) * 16), CHR ''='', CHR ''='']"
| "btoa [a, b] =
     [b64 ((of_char a :: nat) div 4),
      b64 (((of_char a :: nat) mod 4) * 16 + (of_char b :: nat) div 16),
      b64 (((of_char b :: nat) mod 16) * 4), CHR ''='']"
| "btoa (a # b # c # rest) =
     [b64 ((of_char a :: nat) div 4),
      b64 (((of_char a :: nat) mod 4) * 16 + (of_char b :: nat) div 16),
      b64 (((of_char b :: nat) mod 16) * 4 + (of_char c :: nat) div 64),
      b64 ((of_char c :: nat) mod 64)] @ btoa rest"

text \<open>\<^verbatim>\<open>str.replace(/\+/g, '-').replace(/\//g, '_').replace(/=/g, '')\<close>\<close>

definition base64urlEscape :: "string \<Rightarrow> string" where
  "base64urlEscape str =
     filter (\<lambda>c. c \<noteq> CHR ''='')
       (map (\<lambda>c. if c = CHR ''/'' then CHR ''_'' else c)
         (map (\<lambda>c. if c = CHR ''+'' then CHR ''-'' else c) str))"

text \<open>
  \<^verbatim>\<open>const [id, secret] = adminAPIKey.split(':')\<close>: the first two parts; \<open>secret\<close> is
  \<^verbatim>\<open>undefined\<close> when the key has no colon, and a template literal prints it so.
\<close>

definition templateValue :: "string option \<Rightarrow> string" where
  "templateValue v = (case v of None \<Rightarrow> ''undefined'' | Some s \<Rightarrow> s)"

definition keyId :: "string \<Rightarrow> string" where
  "keyId adminAPIKey = (case splitOn CHR '':'' adminAPIKey of [] \<Rightarrow> [] | p # ps \<Rightarrow> p)"

definition keySecret :: "string \<Rightarrow> string option" where
  "keySecret adminAPIKey =
     (case splitOn CHR '':'' adminAPIKey of p # q # ps \<Rightarrow> Some q | _ \<Rightarrow> None)"

text \<open>
  \<open>now\<close> is \<^verbatim>\<open>Date.now()\<close>, in milliseconds; the two calls in the payload are taken
  to return the same value.
\<close>

definition encodedHeader :: "string \<Rightarrow> string" where
  "encodedHeader adminAPIKey = base64urlEscape (btoa (stringifyHeader (keyId adminAPIKey)))"

definition encodedPayload :: "nat \<Rightarrow> string" where
  "encodedPayload now =
     base64urlEscape (btoa (stringifyPayload (now div 1000) (now div 1000 + 5 * 60)))"

definition signature :: "nat \<Rightarrow> string \<Rightarrow> string" where
  "signature now adminAPIKey =
     base64urlEscape (btoa (encodedHeader adminAPIKey @ ''.'' @ encodedPayload now @ ''.''
       @ templateValue (keySecret adminAPIKey)))"

definition generateGhostJWT :: "nat \<Rightarrow> string \<Rightarrow> string" where
  "generateGhostJWT now adminAPIKey =
     encodedHeader adminAPIKey @ ''.'' @ encodedPayload now @ ''.'' @ signature now adminAPIKey"

section \<open>The item extractor of content-sourcer.js (parseRSSItems)\<close>

text \<open>
  The match of a regular expression with two groups is \<^verbatim>\<open>null\<close> or its groups 1 and 2,
  each a string or \<^verbatim>\<open>undefined\<close>.
\<close>

type_synonym js_match = "(string option \<times> string option) option"

text \<open>
  \<^verbatim>\<open><tag[^>]*><!\[CDATA\[([^\]]+)\]\]><\/tag>\<close> at the head of the string: group 1.
\<close>

definition matchCdataElementAt :: "string \<Rightarrow> string \<Rightarrow> string option" where
  "matchCdataElementAt tag s =
     (case matchLiteralCI (''<'' @ tag) s of
        None \<Rightarrow> None
      | Some (m1, r1) \<Rightarrow>
          (case matchToGt r1 of
             None \<Rightarrow> None
           | Some (m2, r2) \<Rightarrow>
               (case matchLiteralCI ''<![CDATA['' r2 of
                  None \<Rightarrow> None
                | Some (m3, r3) \<Rightarrow>
                    (let g = takeWhile (\<lambda>c. c \<noteq> CHR '']'') r3 in
                     if g = [] then None
                     else (case matchLiteralCI ('']]></'' @ tag @ ''>'') (drop (length g) r3) of
                             None \<Rightarrow> None
                           | Some (m4, r4) \<Rightarrow> Some g)))))"

text \<open>\<^verbatim>\<open><tag[^>]*>([^<]+)<\/tag>\<close> at the head of the string: the group.\<close>

definition matchTextElementAt :: "string \<Rightarrow> string \<Rightarrow> string option" where
  "matchTextElementAt tag s =
     (case matchLiteralCI (''<'' @ tag) s of
        None \<Rightarrow> None
      | Some (m1, r1) \<Rightarrow>
          (case matchToGt r1 of
             None \<Rightarrow> None
           | Some (m2, r2) \<Rightarrow>
               (let g = takeWhile (\<lambda>c. c \<noteq> CHR ''<'') r2 in
                if g = [] then None
                else (case matchLiteralCI (''</'' @ tag @ ''>'') (drop (length g) r2) of
                        None \<Rightarrow> None
                      | Some (m3, r3) \<Rightarrow> Some g))))"

text \<open>
  \<^verbatim>\<open>titleRegex.exec\<close> and \<^verbatim>\<open>descRegex.exec\<close>: at each position the CDATA alternative
  first, then the text alternative.
\<close>

definition execCdataOrText :: "string \<Rightarrow> string \<Rightarrow> js_match" where
  "execCdataOrText tag s =
     searchFirst (\<lambda>s. case matchCdataElementAt tag s of
                         Some g \<Rightarrow> Some (Some g, None)
                       | None \<Rightarrow>
                           (case matchTextElementAt tag s of
                              Some g \<Rightarrow> Some (None, Some g)
                            | None \<Rightarrow> None)) s"

text \<open>\<^verbatim>\<open>linkRegex.exec\<close>\<close>

definition execText :: "string \<Rightarrow> string \<Rightarrow> js_match" where
  "execText tag s =
     searchFirst (\<lambda>s. case matchTextElementAt tag s of
                         Some g \<Rightarrow> Some (Some g, None)
                       | None \<Rightarrow> None) s"

text \<open>Reading a group of \<^verbatim>\<open>null\<close> throws.\<close>

definition groups :: "js_match \<Rightarrow> js_error + (string option \<times> string option)" where
  "groups m = (case m of None \<Rightarrow> Inl TypeError | Some g \<Rightarrow> Inr g)"

text \<open>\<^verbatim>\<open>a || b\<close> on strings: \<open>a\<close> unless it is \<^verbatim>\<open>undefined\<close> or empty.\<close>

definition jsOr :: "string option \<Rightarrow> string option \<Rightarrow> string option" where
  "jsOr a b = (case a of None \<Rightarrow> b | Some s \<Rightarrow> if s = [] then b else Some s)"

text \<open>
  The body of the loop of \<^verbatim>\<open>parseRSSItems\<close>. A field of the item that is
  \<^verbatim>\<open>undefined\<close> is kept as the text that the template literals of the filter and of the
  digest print for it (no match leaves a group that is read here undefined, see
  \<open>parseRSSItem_fields\<close>).
\<close>

definition parseRSSItem :: "string \<Rightarrow> js_error + rss_item option" where
  "parseRSSItem itemContent =
     (let titleMatch = execCdataOrText ''title'' itemContent;
          linkMatch = execText ''link'' itemContent;
          descMatch = execCdataOrText ''description'' itemContent
      in if titleMatch \<noteq> None \<and> linkMatch \<noteq> None
         then bindE (groups titleMatch) (\<lambda>t.
              bindE (groups linkMatch) (\<lambda>l.
              bindE (if descMatch \<noteq> None
                     then bindE (groups descMatch) (\<lambda>d. Inr (jsOr (fst d) (snd d)))
                     else Inr (Some [])) (\<lambda>d.
              Inr (Some \<lparr>title = templateValue (jsOr (fst t) (snd t)),
                         link = templateValue (fst l),
                         description = templateValue d\<rparr>))))
         else Inr None)"

fun parseRSSItemsLoop :: "string list \<Rightarrow> rss_item list \<Rightarrow> js_error + rss_item list" where
  "parseRSSItemsLoop [] items = Inr items"
| "parseRSSItemsLoop (itemContent # rest) items =
     bindE (parseRSSItem itemContent) (\<lambda>pushed.
       parseRSSItemsLoop rest (case pushed of None \<Rightarrow> items | Some i \<Rightarrow> items @ [i]))"

definition parseRSSItems :: "string \<Rightarrow> js_error + rss_item list" where
  "parseRSSItems rssText = parseRSSItemsLoop (map snd (itemMatchesFrom 0 rssText)) []"

section \<open>The sourcing run of content-sourcer.js (handleSourceContent)\<close>

text \<open>
  \<open>fetch u\<close> is \<^verbatim>\<open>await fetch(u)\<close>: the exception of a fetch that fails (no
  connection, a timeout), or a response, of which the worker reads the body with
  \<^verbatim>\<open>await response.text()\<close>, which can throw too. A response has a status, which no
  sourcing loop reads. The store is a map from keys to values; \<open>storeUp\<close> tells whether
  \<^verbatim>\<open>put\<close> succeeds. A stored value is the value that \<^verbatim>\<open>JSON.stringify\<close> was given.
\<close>

record http_response =
  resp_status :: nat
  resp_text :: "js_error + string"

type_synonym fetcher = "string \<Rightarrow> js_error + http_response"

text \<open>
  \<^verbatim>\<open>const response = await fetch(u); const text = await response.text();\<close>
\<close>

definition fetchText :: "fetcher \<Rightarrow> string \<Rightarrow> js_error + string" where
  "fetchText fetch u = bindE (fetch u) (\<lambda>response. resp_text response)"

definition kvPut :: "bool \<Rightarrow> string \<Rightarrow> 'v \<Rightarrow> (string \<rightharpoonup> 'v) \<Rightarrow> js_error + (string \<rightharpoonup> 'v)" where
  "kvPut storeUp key v kv = (if storeUp then Inr (kv(key \<mapsto> v)) else Inl StoreError)"

record sourced_feed =
  source :: string
  category :: string
  items :: "rss_item list"

text \<open>
  One turn of \<^verbatim>\<open>for (const feed of sources.rss_feeds)\<close>: the \<^verbatim>\<open>try\<close> block pushes an
  entry, the \<^verbatim>\<open>catch\<close> block logs and leaves \<open>sourcedContent\<close> as it was.
\<close>

definition sourceFeed :: "sources_cfg \<Rightarrow> fetcher \<Rightarrow> rss_feed \<Rightarrow> sourced_feed list \<Rightarrow> sourced_feed list" where
  "sourceFeed sources fetch feed sourcedContent =
     (case bindE (fetchText fetch (url feed)) (\<lambda>rssText.
           bindE (parseRSSItems rssText) (\<lambda>parsed.
           Inr (sourcedContent @
                [\<lparr>source = name feed, category = rss_feed.category feed,
                  items = take 5 (filterGoodVibesContent sources parsed)\<rparr>]))) of
        Inr pushed \<Rightarrow> pushed
      | Inl e \<Rightarrow> sourcedContent)"

fun sourceFeeds :: "sources_cfg \<Rightarrow> fetcher \<Rightarrow> rss_feed list \<Rightarrow> sourced_feed list \<Rightarrow> sourced_feed list" where
  "sourceFeeds sources fetch [] sourcedContent = sourcedContent"
| "sourceFeeds sources fetch (feed # feeds) sourcedContent =
     sourceFeeds sources fetch feeds (sourceFeed sources fetch feed sourcedContent)"

datatype source_response =
  SourceOk (sources_processed: nat) (items_found: nat) (storage_key: string)
| SourceFailed js_error

text \<open>\<open>today\<close> is \<^verbatim>\<open>new Date().toISOString().split('T')[0]\<close>.\<close>

definition handleSourceContent ::
  "sources_cfg \<Rightarrow> fetcher \<Rightarrow> string \<Rightarrow> bool \<Rightarrow> (string \<rightharpoonup> sourced_feed list)
     \<Rightarrow> source_response \<times> (string \<rightharpoonup> sourced_feed list)" where
  "handleSourceContent sources fetch today storeUp kv =
     (let sourcedContent = sourceFeeds sources fetch (rss_feeds sources) [];
          contentKey = ''content_'' @ today
      in case kvPut storeUp contentKey sourcedContent kv of
           Inl e \<Rightarrow> (SourceFailed e, kv)
         | Inr kv' \<Rightarrow>
             (SourceOk (length (rss_feeds sources))
                (foldl (\<lambda>total s. total + length (items s)) 0 sourcedContent) contentKey,
              kv'))"

section \<open>The sourcing run of the router (handleSourceContent)\<close>

definition defaultSources :: "string list" where
  "defaultSources =
     [''https://laist.com/feeds/all.rss'', ''https://la.eater.com/rss/index.xml'',
      ''https://www.timeout.com/los-angeles/rss.xml'']"

text \<open>\<^verbatim>\<open>Math.ceil(maxItems / sourcesToFetch.length)\<close>, for a list that is not empty.\<close>

definition maxItemsPerFeed :: "nat \<Rightarrow> nat \<Rightarrow> nat" where
  "maxItemsPerFeed maxItems feedCount = (maxItems + feedCount - 1) div feedCount"

definition fetchFeed :: "url_parser \<Rightarrow> fetcher \<Rightarrow> nat \<Rightarrow> string \<Rightarrow> router_item list \<Rightarrow> router_item list" where
  "fetchFeed URL fetch perFeed sourceUrl collected =
     (case bindE (fetchText fetch sourceUrl) (\<lambda>xmlText.
           bindE (parseRSSFeed URL xmlText perFeed) (\<lambda>parsed.
           Inr (collected @ parsed))) of
        Inr pushed \<Rightarrow> pushed
      | Inl e \<Rightarrow> collected)"

fun fetchFeeds :: "url_parser \<Rightarrow> fetcher \<Rightarrow> nat \<Rightarrow> string list \<Rightarrow> router_item list \<Rightarrow> router_item list" where
  "fetchFeeds URL fetch perFeed [] collected = collected"
| "fetchFeeds URL fetch perFeed (sourceUrl # rest) collected =
     fetchFeeds URL fetch perFeed rest (fetchFeed URL fetch perFeed sourceUrl collected)"

record request_body =
  body_sources :: "string list"
  body_category :: string
  body_maxItems :: nat

record sourced_content =
  content_id :: string
  timestamp :: string
  content_category :: string
  content_sources :: "string list"
  content_status :: string
  content_title :: string
  content_items :: "router_item list"

datatype router_response =
  RouterOk (contentId: string) (itemCount: nat)
| RouterFailed js_error

text \<open>\<^verbatim>\<open>const sourcesToFetch = sources.length ? sources : defaultSources;\<close>\<close>

definition sourcesToFetch :: "request_body \<Rightarrow> string list" where
  "sourcesToFetch body =
     (if length (body_sources body) \<noteq> 0 then body_sources body else defaultSources)"

text \<open>
  \<open>body\<close> is \<^verbatim>\<open>await request.json()\<close> with the defaults of the destructuring filled in;
  \<open>uuid\<close> is \<^verbatim>\<open>crypto.randomUUID()\<close>, \<open>now\<close> and \<open>localeDate\<close> the two dates, and
  \<open>rnd\<close> the draws of \<^verbatim>\<open>Math.random()\<close>.
\<close>

definition routerHandleSourceContent ::
  "url_parser \<Rightarrow> fetcher \<Rightarrow> (nat \<Rightarrow> real) \<Rightarrow> string \<Rightarrow> string \<Rightarrow> string \<Rightarrow> bool
     \<Rightarrow> js_error + request_body \<Rightarrow> (string \<rightharpoonup> sourced_content)
     \<Rightarrow> router_response \<times> (string \<rightharpoonup> sourced_content)" where
  "routerHandleSourceContent URL fetch rnd uuid now localeDate storeUp request kv =
     (case request of
        Inl e \<Rightarrow> (RouterFailed e, kv)
      | Inr body \<Rightarrow>
          (let urls = sourcesToFetch body;
               collected = fetchFeeds URL fetch
                 (maxItemsPerFeed (body_maxItems body) (length urls)) urls [];
               sourcedContent =
                 \<lparr>content_id = uuid, timestamp = now, content_category = body_category body,
                  content_sources = urls,
                  content_status = ''sourced'',
                  content_title = ''LA Newsletter Draft - '' @ localeDate,
                  content_items = fst (filterGoodVibes rnd 0 collected)\<rparr>
           in case kvPut storeUp (''content:'' @ uuid) sourcedContent kv of
                Inl e \<Rightarrow> (RouterFailed e, kv)
              | Inr kv' \<Rightarrow> (RouterOk uuid (length (content_items sourcedContent)), kv')))"

section \<open>The digest (generateDraftHTML)\<close>

text \<open>The callback of \<^verbatim>\<open>source.items.forEach\<close>: what \<open>html\<close> is after it.\<close>

definition appendItem :: "string \<Rightarrow> rss_item \<Rightarrow> string" where
  "appendItem html item =
     (let html1 = html @ ''<li><a href='' @ [CHR 0x22] @ link item @ [CHR 0x22]
                   @ '' target='' @ [CHR 0x22] @ ''_blank'' @ [CHR 0x22] @ ''>''
                   @ title item @ ''</a>'';
          html2 = (if description item \<noteq> []
                   then html1 @ ''<br><small>'' @ take 150 (description item) @ ''...</small>''
                   else html1)
      in html2 @ ''</li>'' @ [CHR 0x0A])"

text \<open>The callback of \<^verbatim>\<open>content.forEach\<close>.\<close>

definition appendSource :: "string \<Rightarrow> sourced_feed \<Rightarrow> string" where
  "appendSource html src =
     (if length (items src) > 0
      then foldl appendItem
             (html @ ''<h2>'' @ source src @ '' - '' @ category src @ ''</h2>'' @ [CHR 0x0A]
                @ ''<ul>'' @ [CHR 0x0A])
             (items src)
           @ ''</ul>'' @ [CHR 0x0A, CHR 0x0A]
      else html)"

definition digestHead :: "string \<Rightarrow> string" where
  "digestHead t =
     ''<h1>'' @ t @ ''</h1>'' @ [CHR 0x0A]
     @ ''<p><em>A curated collection of Good Vibes from around LA</em></p>'' @ [CHR 0x0A, CHR 0x0A]"

text \<open>The closing line; its first character is U+1F916, here in UTF-8.\<close>

definition digestFoot :: string where
  "digestFoot =
     ''<hr>'' @ [CHR 0x0A] @ ''<p><small>'' @ [CHR 0xF0, CHR 0x9F, CHR 0xA4, CHR 0x96]
     @ '' <em>A project curated by Humans x AI at <a href='' @ [CHR 0x22]
     @ ''https://curations.cc'' @ [CHR 0x22] @ ''>Curations.cc</a></em></small></p>''"

definition generateDraftHTML :: "sourced_feed list \<Rightarrow> string \<Rightarrow> string \<times> string" where
  "generateDraftHTML content t = (t, foldl appendSource (digestHead t) content @ digestFoot)"

section \<open>Decoding a token segment\<close>

text \<open>
  What a holder of a token does with a segment: base64url without padding, decoded to the
  characters it encodes. \<open>sextets\<close> lists the 6-bit groups that \<^verbatim>\<open>btoa\<close> encodes.
\<close>

definition b64urlchars :: string where
  "b64urlchars = ''ABCDEFGHIJKLMNOPQRSTUVWXYZabcdefghijklmnopqrstuvwxyz0123456789-_''"

definition b64urlValue :: "char \<Rightarrow> nat" where
  "b64urlValue c = length (takeWhile (\<lambda>x. x \<noteq> c) b64urlchars)"

fun decodeSextets :: "nat list \<Rightarrow> nat list" where
  "decodeSextets (p # q # r # s # rest) =
     [p * 4 + q div 16, (q mod 16) * 16 + r div 4, (r mod 4) * 64 + s] @ decodeSextets rest"
| "decodeSextets [p, q, r] = [p * 4 + q div 16, (q mod 16) * 16 + r div 4]"
| "decodeSextets [p, q] = [p * 4 + q div 16]"
| "decodeSextets _ = []"

definition base64urlDecode :: "string \<Rightarrow> string" where
  "base64urlDecode s = map char_of (decodeSextets (map b64urlValue s))"

fun sextets :: "string \<Rightarrow> nat list" where
  "sextets [] = []"
| "sextets [a] = [(of_char a :: nat) div 4, ((of_char a :: nat) mod 4) * 16]"
| "sextets [a, b] =
     [(of_char a :: nat) div 4, ((of_char a :: nat) mod 4) * 16 + (of_char b :: nat) div 16,
      ((of_char b :: nat) mod 16) * 4]"
| "sextets (a # b # c # rest) =
     [(of_char a :: nat) div 4, ((of_char a :: nat) mod 4) * 16 + (of_char b :: nat) div 16,
      ((of_char b :: nat) mod 16) * 4 + (of_char c :: nat) div 64, (of_char c :: nat) mod 64]
     @ sextets rest"

section \<open>HMAC-SHA256 (FIPS 180-4, RFC 2104)\<close>

text \<open>
  The keyed hash that the header of the token names (\<^verbatim>\<open>alg: HS256\<close>), over strings of
  8-bit characters, for comparison with the signature that the worker computes.
\<close>

text \<open>
  The constants of the standard are the first 32 bits of the fractional parts of the cube
  roots (round constants) and of the square roots (initial hash value) of the first
  primes. \<open>rootBits ok k 0\<close> is the largest number below \<open>2 ^ k\<close> that satisfies \<open>ok\<close>,
  found bit by bit, for a test \<open>ok\<close> that holds up to some number and fails beyond it.
\<close>

fun rootBits :: "(int \<Rightarrow> bool) \<Rightarrow> nat \<Rightarrow> int \<Rightarrow> int" where
  "rootBits ok 0 r = r"
| "rootBits ok (Suc k) r = rootBits ok k (if ok (r + 2 ^ k) then r + 2 ^ k else r)"

definition fracCubeRoot :: "int \<Rightarrow> 32 word" where
  "fracCubeRoot p = word_of_int (rootBits (\<lambda>r. r * r * r \<le> p * 2 ^ 96) 36 0)"

definition fracSquareRoot :: "int \<Rightarrow> 32 word" where
  "fracSquareRoot p = word_of_int (rootBits (\<lambda>r. r * r \<le> p * 2 ^ 64) 36 0)"

definition primes64 :: "int list" where
  "primes64 =
     [2, 3, 5, 7, 11, 13, 17, 19, 23, 29, 31, 37, 41, 43, 47, 53, 59, 61, 67, 71, 73, 79, 83, 89,
      97, 101, 103, 107, 109, 113, 127, 131, 137, 139, 149, 151, 157, 163, 167, 173, 179, 181,
      191, 193, 197, 199, 211, 223, 227, 229, 233, 239, 241, 251, 257, 263, 269, 271, 277, 281,
      283, 293, 307, 311]"

definition K256 :: "32 word list" where
  "K256 = map fracCubeRoot primes64"

type_synonym sha_state =
  "32 word \<times> 32 word \<times> 32 word \<times> 32 word \<times> 32 word \<times> 32 word \<times> 32 word \<times> 32 word"

definition sha256Init :: sha_state where
  "sha256Init =
     (fracSquareRoot 2, fracSquareRoot 3, fracSquareRoot 5, fracSquareRoot 7,
      fracSquareRoot 11, fracSquareRoot 13, fracSquareRoot 17, fracSquareRoot 19)"

definition Ch :: "32 word \<Rightarrow> 32 word \<Rightarrow> 32 word \<Rightarrow> 32 word" where
  "Ch x y z = (x AND y) XOR (NOT x AND z)"

definition Maj :: "32 word \<Rightarrow> 32 word \<Rightarrow> 32 word \<Rightarrow> 32 word" where
  "Maj x y z = (x AND y) XOR (x AND z) XOR (y AND z)"

definition bigSigma0 :: "32 word \<Rightarrow> 32 word" where
  "bigSigma0 x = word_rotr 2 x XOR word_rotr 13 x XOR word_rotr 22 x"

definition bigSigma1 :: "32 word \<Rightarrow> 32 word" where
  "bigSigma1 x = word_rotr 6 x XOR word_rotr 11 x XOR word_rotr 25 x"

definition smallSigma0 :: "32 word \<Rightarrow> 32 word" where
  "smallSigma0 x = word_rotr 7 x XOR word_rotr 18 x XOR drop_bit 3 x"

definition smallSigma1 :: "32 word \<Rightarrow> 32 word" where
  "smallSigma1 x = word_rotr 17 x XOR word_rotr 19 x XOR drop_bit 10 x"

text \<open>The message schedule: \<open>n\<close> more words after the ones of the block.\<close>

fun schedule :: "nat \<Rightarrow> 32 word list \<Rightarrow> 32 word list" where
  "schedule 0 w = w"
| "schedule (Suc n) w =
     schedule n (w @ [smallSigma1 (w ! (length w - 2)) + w ! (length w - 7)
                      + smallSigma0 (w ! (length w - 15)) + w ! (length w - 16)])"

fun shaRound :: "sha_state \<Rightarrow> 32 word \<times> 32 word \<Rightarrow> sha_state" where
  "shaRound (a, b, c, d, e, f, g, h) (k, w) =
     (let t1 = h + bigSigma1 e + Ch e f g + k + w;
          t2 = bigSigma0 a + Maj a b c
      in (t1 + t2, a, b, c, d + t1, e, f, g))"

fun addState :: "sha_state \<Rightarrow> sha_state \<Rightarrow> sha_state" where
  "addState (a, b, c, d, e, f, g, h) (a', b', c', d', e', f', g', h') =
     (a + a', b + b', c + c', d + d', e + e', f + f', g + g', h + h')"

definition compress :: "32 word list \<Rightarrow> sha_state \<Rightarrow> 32 word list \<Rightarrow> sha_state" where
  "compress ks st block = addState st (foldl shaRound st (zip ks (schedule 48 block)))"

fun compressBlocks :: "32 word list \<Rightarrow> nat \<Rightarrow> sha_state \<Rightarrow> 32 word list \<Rightarrow> sha_state" where
  "compressBlocks ks 0 st ws = st"
| "compressBlocks ks (Suc n) st ws =
     compressBlocks ks n (compress ks st (take 16 ws)) (drop 16 ws)"

text \<open>Padding: the bit 1, zeros up to 56 modulo 64 bytes, the length in bits on 64 bits.\<close>

definition beBytes :: "nat \<Rightarrow> int \<Rightarrow> int list" where
  "beBytes n x = map (\<lambda>i. (x div 256 ^ (n - 1 - i)) mod 256) [0..<n]"

definition shaPad :: "int list \<Rightarrow> int list" where
  "shaPad bs =
     bs @ [128] @ replicate ((119 - length bs mod 64) mod 64) 0
     @ beBytes 8 (8 * int (length bs))"

fun beWords :: "int list \<Rightarrow> 32 word list" where
  "beWords (a # b # c # d # rest) =
     word_of_int (((a * 256 + b) * 256 + c) * 256 + d) # beWords rest"
| "beWords _ = []"

fun wordBytes :: "32 word \<Rightarrow> string" where
  "wordBytes w =
     [char_of (uint (drop_bit 24 w)), char_of (uint (drop_bit 16 w)),
      char_of (uint (drop_bit 8 w)), char_of (uint w)]"

fun stateBytes :: "sha_state \<Rightarrow> string" where
  "stateBytes (a, b, c, d, e, f, g, h) =
     wordBytes a @ wordBytes b @ wordBytes c @ wordBytes d
     @ wordBytes e @ wordBytes f @ wordBytes g @ wordBytes h"

definition sha256 :: "string \<Rightarrow> string" where
  "sha256 msg =
     (let ws = beWords (shaPad (map of_char msg))
      in stateBytes (compressBlocks K256 (length ws div 16) sha256Init ws))"

definition xorPad :: "int \<Rightarrow> string \<Rightarrow> string" where
  "xorPad p k = map (\<lambda>c. char_of ((of_char c :: int) XOR p)) k"

definition hmacSha256 :: "string \<Rightarrow> string \<Rightarrow> string" where
  "hmacSha256 key msg =
     (let k0 = (if length key > 64 then sha256 key else key);
          k = k0 @ replicate (64 - length k0) (CHR 0x00)
      in sha256 (xorPad 0x5c k @ sha256 (xorPad 0x36 k @ msg)))"

text \<open>The secret of an admin key is hexadecimal: two digits for each byte of the key.\<close>

definition hexValue :: "char \<Rightarrow> int option" where
  "hexValue c =
     (let n = (of_char c :: int) in
      if 48 \<le> n \<and> n \<le> 57 then Some (n - 48)
      else if 97 \<le> n \<and> n \<le> 102 then Some (n - 87)
      else if 65 \<le> n \<and> n \<le> 70 then Some (n - 55)
      else None)"

fun hexDecode :: "string \<Rightarrow> string" where
  "hexDecode (a # b # rest) =
     (case (hexValue a, hexValue b) of
        (Some x, Some y) \<Rightarrow> char_of (x * 16 + y) # hexDecode rest
      | _ \<Rightarrow> [])"
| "hexDecode _ = []"

section \<open>Properties of the string operations\<close>

lemma startsWith_iff: "startsWith s p \<longleftrightarrow> (\<exists>r. s = p @ r)"
  by (induction s p rule: startsWith.induct) auto

lemma includes_iff: "includesStr t k \<longleftrightarrow> (\<exists>l r. t = l @ k @ r)"
proof (induction t)
  case Nil
  then show ?case by auto
next
  case (Cons c cs)
  show ?case
  proof
    assume "includesStr (c # cs) k"
    then consider "startsWith (c # cs) k" | "includesStr cs k" by auto
    then show "\<exists>l r. c # cs = l @ k @ r"
    proof cases
      case 1
      then obtain r where "c # cs = [] @ k @ r" by (auto simp: startsWith_iff)
      then show ?thesis by blast
    next
      case 2
      then obtain l r where "cs = l @ k @ r" using Cons.IH by blast
      then have "c # cs = (c # l) @ k @ r" by simp
      then show ?thesis by blast
    qed
  next
    assume "\<exists>l r. c # cs = l @ k @ r"
    then obtain l r where eq: "c # cs = l @ k @ r" by blast
    show "includesStr (c # cs) k"
    proof (cases l)
      case Nil
      with eq have "startsWith (c # cs) k" by (auto simp: startsWith_iff)
      then show ?thesis by simp
    next
      case (Cons d l')
      with eq have "cs = l' @ k @ r" by simp
      then have "includesStr cs k" using Cons.IH by blast
      then show ?thesis by simp
    qed
  qed
qed

section \<open>Properties of the filters\<close>

lemma foldl_count:
  "foldl (\<lambda>score keyword. if P keyword then score + 1 else score) n ks
     = n + length (filter P ks)"
  by (induction ks arbitrary: n) auto

lemma goodVibesScore_count:
  "goodVibesScore sources text =
     length (filter (\<lambda>keyword. includesStr text (toLowerCase keyword)) (good_vibes_keywords sources))"
  by (simp add: goodVibesScore_def foldl_count)

lemma keepGoodVibesContent_iff:
  "keepGoodVibesContent sources item \<longleftrightarrow>
     \<not> hasNegative sources (itemText item)
     \<and> min_good_vibes_score (content_filters sources) \<le> int (goodVibesScore sources (itemText item))
     \<and> hasLAKeyword sources (itemText item)"
  by (simp add: keepGoodVibesContent_def Let_def)

text \<open>
  Claim C1, as amended. \<^verbatim>\<open>filterGoodVibesContent\<close> keeps exactly the items for which no
  negative keyword occurs in the lower-cased \<open>title + " " + description\<close>, the number of
  good-vibes keywords of the configuration that occur in it (each compared in lower case) is at
  least \<open>min_good_vibes_score\<close>, and some required LA keyword occurs in it. The score test
  and the LA test alone do not accept: the negative-keyword veto comes first.
\<close>

theorem filterGoodVibesContent_accepts_iff:
  "filterGoodVibesContent sources batch =
     filter (\<lambda>item.
        \<not> (\<exists>keyword \<in> set (negative_keywords sources).
              includesStr (toLowerCase (title item @ '' '' @ description item)) (toLowerCase keyword))
        \<and> min_good_vibes_score (content_filters sources)
            \<le> int (length (filter
                  (\<lambda>keyword. includesStr (toLowerCase (title item @ '' '' @ description item))
                     (toLowerCase keyword))
                  (good_vibes_keywords sources)))
        \<and> (\<exists>keyword \<in> set (required_la_keywords (content_filters sources)).
              includesStr (toLowerCase (title item @ '' '' @ description item)) (toLowerCase keyword)))
       batch"
  unfolding filterGoodVibesContent_def
  by (rule filter_cong [OF refl])
     (simp add: keepGoodVibesContent_iff goodVibesScore_count hasNegative_def hasLAKeyword_def
        itemText_def list_ex_iff)

text \<open>
  Claim C1 as stated fails: this item has three good-vibes keywords (the minimum is 2) and the
  LA keyword, and is rejected, because it also has a negative keyword.
\<close>

theorem score_and_locality_not_sufficient:
  "\<not> (keepGoodVibesContent
         \<lparr>rss_feeds = [], negative_keywords = [''crime''],
          good_vibes_keywords = [''art'', ''community'', ''festival''],
          content_filters = \<lparr>required_la_keywords = [''LA''], min_good_vibes_score = 2\<rparr>\<rparr>
         \<lparr>title = ''Art festival in LA'', link = ''https://example.com/a'',
          description = ''A community answer to crime''\<rparr>
       \<longleftrightarrow>
         (2 \<le> int (length (filter
             (\<lambda>keyword. includesStr
                (toLowerCase (''Art festival in LA'' @ '' '' @ ''A community answer to crime''))
                (toLowerCase keyword))
             [''art'', ''community'', ''festival'']))
          \<and> (\<exists>keyword \<in> set [''LA''].
                includesStr
                  (toLowerCase (''Art festival in LA'' @ '' '' @ ''A community answer to crime''))
                  (toLowerCase keyword))))"
  by (simp add: keepGoodVibesContent_def hasNegative_def goodVibesScore_def hasLAKeyword_def
      itemText_def toLowerCase_def toLowerChar_def isUpperChar_def)

text \<open>
  Claim C2. An item whose lower-cased text contains a negative keyword (compared in lower
  case) is rejected by \<^verbatim>\<open>filterGoodVibesContent\<close>, whatever the good-vibes and LA
  keywords in it; the router's \<^verbatim>\<open>filterGoodVibes\<close> rejects an item whose lower-cased text
  contains one of its banned words, whatever \<^verbatim>\<open>Math.random()\<close> would draw.
\<close>

theorem banned_keyword_rejects:
  "((\<exists>keyword \<in> set (negative_keywords sources).
        includesStr (toLowerCase (title item @ '' '' @ description item)) (toLowerCase keyword))
      \<longrightarrow> \<not> keepGoodVibesContent sources item
          \<and> item \<notin> set (filterGoodVibesContent sources batch))
   \<and> ((\<exists>word \<in> set bannedWords.
          includesStr (toLowerCase (title ritem @ '' '' @ excerpt ritem)) word)
      \<longrightarrow> keepGoodVibes rnd k ritem = (False, k))"
  by (auto simp: keepGoodVibesContent_def hasNegative_def itemText_def list_ex_iff
      filterGoodVibesContent_def keepGoodVibes_def routerText_def)

theorem banned_keyword_rejects_witness:
  "(\<exists>keyword \<in> set [''crime''].
      includesStr (toLowerCase (''Art festival in LA'' @ '' '' @ ''A community answer to crime''))
        (toLowerCase keyword))
   \<and> \<not> keepGoodVibesContent
         \<lparr>rss_feeds = [], negative_keywords = [''crime''],
          good_vibes_keywords = [''art'', ''community'', ''festival''],
          content_filters = \<lparr>required_la_keywords = [''LA''], min_good_vibes_score = 2\<rparr>\<rparr>
         \<lparr>title = ''Art festival in LA'', link = ''https://example.com/a'',
          description = ''A community answer to crime''\<rparr>
   \<and> (\<exists>word \<in> set bannedWords.
        includesStr (toLowerCase (''Music and Murder'' @ '' '' @ ''a food festival'')) word)
   \<and> keepGoodVibes (\<lambda>n. 1 / 2) 0
        \<lparr>title = ''Music and Murder'', link = ''https://example.com/b'',
         excerpt = ''a food festival'', source = ''example.com''\<rparr> = (False, 0)"
proof -
  have a: "\<exists>keyword \<in> set [''crime''].
      includesStr (toLowerCase (''Art festival in LA'' @ '' '' @ ''A community answer to crime''))
        (toLowerCase keyword)"
    by (simp add: toLowerCase_def toLowerChar_def isUpperChar_def)
  have b: "\<exists>word \<in> set bannedWords.
        includesStr (toLowerCase (''Music and Murder'' @ '' '' @ ''a food festival'')) word"
    by (simp add: bannedWords_def toLowerCase_def toLowerChar_def isUpperChar_def)
  show ?thesis
    using a b
      banned_keyword_rejects [of
        "\<lparr>rss_feeds = [], negative_keywords = [''crime''],
          good_vibes_keywords = [''art'', ''community'', ''festival''],
          content_filters = \<lparr>required_la_keywords = [''LA''], min_good_vibes_score = 2\<rparr>\<rparr>"
        "\<lparr>title = ''Art festival in LA'', link = ''https://example.com/a'',
          description = ''A community answer to crime''\<rparr>"
        "[]"
        "\<lparr>title = ''Music and Murder'', link = ''https://example.com/b'',
         excerpt = ''a food festival'', source = ''example.com''\<rparr>"
        "\<lambda>n. 1 / 2" 0]
    by simp
qed

lemma keepGoodVibesContent_text_only:
  assumes "toLowerCase (title a @ '' '' @ description a)
             = toLowerCase (title b @ '' '' @ description b)"
  shows "keepGoodVibesContent sources a = keepGoodVibesContent sources b"
    and "goodVibesScore sources (itemText a) = goodVibesScore sources (itemText b)"
  using assms by (simp_all add: keepGoodVibesContent_def itemText_def)

text \<open>
  Claim C3 holds for \<^verbatim>\<open>filterGoodVibesContent\<close> (lemma \<open>keepGoodVibesContent_text_only\<close>:
  the decision and the score are functions of the lower-cased text and the configuration).
  The router's \<^verbatim>\<open>filterGoodVibes\<close> breaks it: for an item with no banned and no good word
  the decision is \<^verbatim>\<open>Math.random() > 0.3\<close>, so the same item is rejected when the draw is
  0.2 and accepted when it is 0.5.
\<close>

theorem filterGoodVibes_depends_on_random_draw:
  "keepGoodVibes (\<lambda>n. 1 / 5) 0
     \<lparr>title = ''Sunset over the pier'', link = ''https://example.com/c'',
      excerpt = ''A quiet evening in LA...'', source = ''example.com''\<rparr> = (False, 1)
   \<and> keepGoodVibes (\<lambda>n. 1 / 2) 0
     \<lparr>title = ''Sunset over the pier'', link = ''https://example.com/c'',
      excerpt = ''A quiet evening in LA...'', source = ''example.com''\<rparr> = (True, 1)
   \<and> fst (filterGoodVibes (\<lambda>n. 1 / 5) 0
     [\<lparr>title = ''Sunset over the pier'', link = ''https://example.com/c'',
       excerpt = ''A quiet evening in LA...'', source = ''example.com''\<rparr>]) = []
   \<and> fst (filterGoodVibes (\<lambda>n. 1 / 2) 0
     [\<lparr>title = ''Sunset over the pier'', link = ''https://example.com/c'',
       excerpt = ''A quiet evening in LA...'', source = ''example.com''\<rparr>])
     = [\<lparr>title = ''Sunset over the pier'', link = ''https://example.com/c'',
         excerpt = ''A quiet evening in LA...'', source = ''example.com''\<rparr>]"
  by (simp add: keepGoodVibes_def routerText_def bannedWords_def goodWords_def
      toLowerCase_def toLowerChar_def isUpperChar_def)

section \<open>Properties of the item extractors\<close>

lemmas regex_eval = matchElementAt_def tagMatch_def eqCI_def toUpperAscii_def
  isLineTerminator_def matchEntityAt_def cleanHtml_def trim_def isWhiteSpace_def

lemma bindE_Inr: "bindE (Inr x) f = f x"
  by (simp add: bindE_def)

lemma bindE_Inl: "bindE (Inl e) f = Inl e"
  by (simp add: bindE_def)

text \<open>
  What \<^verbatim>\<open>parseRSSFeed\<close> pushes for one item block: nothing unless a title and a link
  match, and no read of a group of \<^verbatim>\<open>null\<close> on the way.
\<close>

lemma parseFeedItem_cases:
  "parseFeedItem URL item =
     (case (tagMatch ''title'' item, tagMatch ''link'' item) of
        (Some t, Some l) \<Rightarrow>
          Inr (Some \<lparr>title = cleanHtml t, link = trim l,
                     excerpt = (case tagMatch ''description'' item of
                                  None \<Rightarrow> []
                                | Some d \<Rightarrow> take 200 (cleanHtml d) @ ''...''),
                     source = extractDomain URL l\<rparr>)
      | _ \<Rightarrow> Inr None)"
  by (simp add: parseFeedItem_def Let_def group1_def bindE_def split: option.splits)

lemma parseFeedItem_total: "\<exists>pushed. parseFeedItem URL item = Inr pushed"
  by (simp add: parseFeedItem_cases split: option.splits)

lemma parseFeedItems_total: "\<exists>result. parseFeedItems URL matches acc = Inr result"
proof (induction matches arbitrary: acc)
  case Nil
  show ?case by simp
next
  case (Cons item rest)
  obtain pushed where "parseFeedItem URL item = Inr pushed"
    using parseFeedItem_total by blast
  then show ?case using Cons.IH by (simp add: bindE_Inr)
qed

lemma parseFeedItems_origin:
  "parseFeedItems URL matches acc = Inr result \<Longrightarrow> i \<in> set result \<Longrightarrow>
     i \<in> set acc \<or> (\<exists>m \<in> set matches. parseFeedItem URL m = Inr (Some i))"
proof (induction matches arbitrary: acc)
  case Nil
  then show ?case by simp
next
  case (Cons item rest)
  obtain pushed where p: "parseFeedItem URL item = Inr pushed"
    using parseFeedItem_total by blast
  with Cons.prems(1) have
    "parseFeedItems URL rest (case pushed of None \<Rightarrow> acc | Some j \<Rightarrow> acc @ [j]) = Inr result"
    by (simp add: bindE_Inr)
  from Cons.IH [OF this Cons.prems(2)] p show ?case
    by (cases pushed) auto
qed

lemma parseRSSItem_total: "\<exists>pushed. parseRSSItem itemContent = Inr pushed"
  by (simp add: parseRSSItem_def Let_def groups_def bindE_def split: option.splits)

lemma parseRSSItemsLoop_total: "\<exists>result. parseRSSItemsLoop contents acc = Inr result"
proof (induction contents arbitrary: acc)
  case Nil
  show ?case by simp
next
  case (Cons itemContent rest)
  obtain pushed where "parseRSSItem itemContent = Inr pushed"
    using parseRSSItem_total by blast
  then show ?case using Cons.IH by (simp add: bindE_Inr)
qed

lemma parseRSSFeed_total: "\<exists>result. parseRSSFeed URL xmlText maxItems = Inr result"
  by (simp add: parseRSSFeed_def Let_def parseFeedItems_total)

lemma parseRSSItems_total: "\<exists>result. parseRSSItems rssText = Inr result"
  by (simp add: parseRSSItems_def parseRSSItemsLoop_total)

text \<open>
  A match of the title, link or description pattern always has the group that
  \<^verbatim>\<open>parseRSSItems\<close> reads, and it is not empty: no field of an item is \<^verbatim>\<open>undefined\<close>.
\<close>

lemma searchFirst_Some: "searchFirst m s = Some x \<Longrightarrow> \<exists>s'. m s' = Some x"
  by (induction s) (auto split: option.splits)

lemma matchCdataElementAt_nonempty: "matchCdataElementAt tag s = Some g \<Longrightarrow> g \<noteq> []"
  by (auto simp: matchCdataElementAt_def Let_def split: option.splits prod.splits if_splits)

lemma matchTextElementAt_nonempty: "matchTextElementAt tag s = Some g \<Longrightarrow> g \<noteq> []"
  by (auto simp: matchTextElementAt_def Let_def split: option.splits prod.splits if_splits)

lemma parseRSSItem_fields:
  "execCdataOrText tag s = Some (g1, g2) \<Longrightarrow> \<exists>g. jsOr g1 g2 = Some g \<and> g \<noteq> []"
  "execText tag s = Some (g1, g2) \<Longrightarrow> \<exists>g. g1 = Some g \<and> g \<noteq> []"
proof -
  assume "execCdataOrText tag s = Some (g1, g2)"
  then obtain s' where m: "(case matchCdataElementAt tag s' of
                         Some g \<Rightarrow> Some (Some g, None)
                       | None \<Rightarrow>
                           (case matchTextElementAt tag s' of
                              Some g \<Rightarrow> Some (None, Some g)
                            | None \<Rightarrow> None)) = Some (g1, g2)"
    unfolding execCdataOrText_def by (blast dest: searchFirst_Some)
  show "\<exists>g. jsOr g1 g2 = Some g \<and> g \<noteq> []"
  proof (cases "matchCdataElementAt tag s'")
    case (Some g)
    from m have "g1 = Some g" and "g2 = None"
      by (simp_all add: Some)
    with matchCdataElementAt_nonempty [OF Some] show ?thesis
      by (simp add: jsOr_def)
  next
    case None
    show ?thesis
    proof (cases "matchTextElementAt tag s'")
      case (Some g)
      from m have "g1 = None" and "g2 = Some g"
        by (simp_all add: None Some)
      with matchTextElementAt_nonempty [OF Some] show ?thesis
        by (simp add: jsOr_def)
    next
      case none: None
      with m None show ?thesis by simp
    qed
  qed
next
  assume "execText tag s = Some (g1, g2)"
  then obtain s' where m: "(case matchTextElementAt tag s' of
                         Some g \<Rightarrow> Some (Some g, None)
                       | None \<Rightarrow> None) = Some (g1, g2)"
    unfolding execText_def by (blast dest: searchFirst_Some)
  show "\<exists>g. g1 = Some g \<and> g \<noteq> []"
  proof (cases "matchTextElementAt tag s'")
    case (Some g)
    from m have "g1 = Some g"
      by (simp add: Some)
    with matchTextElementAt_nonempty [OF Some] show ?thesis
      by simp
  next
    case None
    with m show ?thesis by simp
  qed
qed

text \<open>
  Claim C10. On every input string both extractors return a list of items and throw
  nothing: every read of a match group is behind the test that the match is not
  \<^verbatim>\<open>null\<close>. When the item pattern matches nowhere, the list is empty.
\<close>

theorem extractors_never_throw:
  "(\<exists>result. parseRSSFeed URL xmlText maxItems = Inr result)
   \<and> (\<exists>result. parseRSSItems xmlText = Inr result)
   \<and> (itemMatchesFrom 0 xmlText = [] \<longrightarrow>
        parseRSSFeed URL xmlText maxItems = Inr [] \<and> parseRSSItems xmlText = Inr [])"
  by (simp add: parseRSSFeed_def parseRSSItems_def Let_def parseFeedItems_total
      parseRSSItemsLoop_total)

theorem extractors_never_throw_witness:
  "itemMatchesFrom 0 ''<rss><item><title>broken'' = []
   \<and> parseRSSFeed (\<lambda>u. Inl TypeError) ''<rss><item><title>broken'' 4 = Inr []
   \<and> parseRSSItems ''<rss><item><title>broken'' = Inr []"
proof -
  have none: "itemMatchesFrom 0 ''<rss><item><title>broken'' = []"
    by (simp add: regex_eval)
  show ?thesis
    using none extractors_never_throw [of "\<lambda>u. Inl TypeError" "''<rss><item><title>broken''" 4]
    by blast
qed














text \<open>
  \<^verbatim>\<open>extractDomain\<close> throws nothing, gives \<^verbatim>\<open>Unknown\<close> for a link that is no URL, and
  removes a leading \<^verbatim>\<open>www.\<close>.
\<close>

lemma replaceFirst_absent: "\<not> includesStr s pat \<Longrightarrow> replaceFirst pat rep s = s"
  by (induction s) auto

lemma replaceFirst_prefix: "pat \<noteq> [] \<Longrightarrow> replaceFirst pat rep (pat @ s) = rep @ s"
  by (cases pat) (simp_all add: startsWith_iff)

lemma extractDomain_cases:
  "URL u = Inl e \<Longrightarrow> extractDomain URL u = ''Unknown''"
  "URL u = Inr (''www.'' @ h) \<Longrightarrow> extractDomain URL u = h"
  "URL u = Inr h \<Longrightarrow> \<not> includesStr h ''www.'' \<Longrightarrow> extractDomain URL u = h"
proof -
  show "URL u = Inl e \<Longrightarrow> extractDomain URL u = ''Unknown''"
    by (simp add: extractDomain_def)
  show "URL u = Inr (''www.'' @ h) \<Longrightarrow> extractDomain URL u = h"
    using replaceFirst_prefix [of "''www.''" "[]" h] by (simp add: extractDomain_def)
  show "URL u = Inr h \<Longrightarrow> \<not> includesStr h ''www.'' \<Longrightarrow> extractDomain URL u = h"
    by (simp add: extractDomain_def replaceFirst_absent)
qed

text \<open>
  Claim C8 fails on the code. \<^verbatim>\<open>hostname.replace('www.', '')\<close> removes the first
  \<^verbatim>\<open>www.\<close> wherever it stands: for a link whose host is \<^verbatim>\<open>cdn.www.example.com\<close> the
  source domain is \<^verbatim>\<open>cdn.example.com\<close>, another host, and no leading prefix was there to
  remove.
\<close>

theorem extractDomain_removes_inner_www:
  "extractDomain
     (\<lambda>u. if u = ''https://cdn.www.example.com/story'' then Inr ''cdn.www.example.com''
           else Inl TypeError)
     ''https://cdn.www.example.com/story'' = ''cdn.example.com''"
  by (simp add: extractDomain_def)

section \<open>Properties of the digest\<close>

lemma appendItem_prefix: "appendItem (h @ x) item = h @ appendItem x item"
  by (simp add: appendItem_def Let_def)

lemma foldl_appendItem: "foldl appendItem h its = h @ concat (map (appendItem []) its)"
proof (induction its arbitrary: h)
  case Nil
  show ?case by simp
next
  case (Cons item its)
  have "appendItem h item = h @ appendItem [] item"
    using appendItem_prefix [of h "[]" item] by simp
  then show ?case by (simp add: Cons.IH)
qed

lemma appendItem_line:
  "appendItem [] item =
     ''<li><a href='' @ [CHR 0x22] @ link item @ [CHR 0x22]
     @ '' target='' @ [CHR 0x22] @ ''_blank'' @ [CHR 0x22] @ ''>'' @ title item @ ''</a>''
     @ (if description item = [] then []
        else ''<br><small>'' @ take 150 (description item) @ ''...</small>'')
     @ ''</li>'' @ [CHR 0x0A]"
  by (simp add: appendItem_def Let_def)

lemma appendSource_section:
  "appendSource h src =
     h @ (if items src = [] then []
          else ''<h2>'' @ source src @ '' - '' @ category src @ ''</h2>'' @ [CHR 0x0A]
               @ ''<ul>'' @ [CHR 0x0A] @ concat (map (appendItem []) (items src))
               @ ''</ul>'' @ [CHR 0x0A, CHR 0x0A])"
  by (simp add: appendSource_def foldl_appendItem)

lemma foldl_appendSource:
  "foldl appendSource h content = h @ concat (map (appendSource []) content)"
proof (induction content arbitrary: h)
  case Nil
  show ?case by simp
next
  case (Cons src content)
  have "appendSource h src = h @ appendSource [] src"
    by (simp add: appendSource_section)
  then show ?case by (simp add: Cons.IH)
qed

lemma sections_of_nonempty:
  "concat (map (appendSource []) content)
     = concat (map (\<lambda>src.
         ''<h2>'' @ source src @ '' - '' @ category src @ ''</h2>'' @ [CHR 0x0A]
         @ ''<ul>'' @ [CHR 0x0A] @ concat (map (appendItem []) (items src))
         @ ''</ul>'' @ [CHR 0x0A, CHR 0x0A])
       (filter (\<lambda>src. items src \<noteq> []) content))"
  by (induction content) (simp_all add: appendSource_section)

text \<open>
  Claim C9. The digest is the \<^verbatim>\<open>h1\<close> title and the byline paragraph, then one section
  for each source that has at least one item and for no other, in the order of the batch,
  each opening with the \<^verbatim>\<open>h2\<close> of source and category and listing its items, then the
  rule and the closing attribution line. When no source has an item, the digest is the
  title, the byline, the rule and the attribution line, and nothing between them. (The
  first character of the attribution line, U+1F916, is outside the 8-bit range of the
  model and stands as its four UTF-8 bytes.)
\<close>

theorem digest_has_sections_of_nonempty_sources:
  "generateDraftHTML content t =
     (t,
      ''<h1>'' @ t @ ''</h1>'' @ [CHR 0x0A]
      @ ''<p><em>A curated collection of Good Vibes from around LA</em></p>''
      @ [CHR 0x0A, CHR 0x0A]
      @ concat (map (\<lambda>src.
          ''<h2>'' @ source src @ '' - '' @ category src @ ''</h2>'' @ [CHR 0x0A]
          @ ''<ul>'' @ [CHR 0x0A]
          @ concat (map (\<lambda>item.
              ''<li><a href='' @ [CHR 0x22] @ link item @ [CHR 0x22]
              @ '' target='' @ [CHR 0x22] @ ''_blank'' @ [CHR 0x22] @ ''>''
              @ title item @ ''</a>''
              @ (if description item = [] then []
                 else ''<br><small>'' @ take 150 (description item) @ ''...</small>'')
              @ ''</li>'' @ [CHR 0x0A]) (items src))
          @ ''</ul>'' @ [CHR 0x0A, CHR 0x0A])
        (filter (\<lambda>src. items src \<noteq> []) content))
      @ ''<hr>'' @ [CHR 0x0A]
      @ ''<p><small>'' @ [CHR 0xF0, CHR 0x9F, CHR 0xA4, CHR 0x96]
      @ '' <em>A project curated by Humans x AI at <a href='' @ [CHR 0x22]
      @ ''https://curations.cc'' @ [CHR 0x22] @ ''>Curations.cc</a></em></small></p>'')
   \<and> ((\<forall>src \<in> set content. items src = []) \<longrightarrow>
        snd (generateDraftHTML content t) =
          ''<h1>'' @ t @ ''</h1>'' @ [CHR 0x0A]
          @ ''<p><em>A curated collection of Good Vibes from around LA</em></p>''
          @ [CHR 0x0A, CHR 0x0A]
          @ ''<hr>'' @ [CHR 0x0A]
          @ ''<p><small>'' @ [CHR 0xF0, CHR 0x9F, CHR 0xA4, CHR 0x96]
          @ '' <em>A project curated by Humans x AI at <a href='' @ [CHR 0x22]
          @ ''https://curations.cc'' @ [CHR 0x22] @ ''>Curations.cc</a></em></small></p>'')"
proof -
  have line: "appendItem [] = (\<lambda>item.
              ''<li><a href='' @ [CHR 0x22] @ link item @ [CHR 0x22]
              @ '' target='' @ [CHR 0x22] @ ''_blank'' @ [CHR 0x22] @ ''>''
              @ title item @ ''</a>''
              @ (if description item = [] then []
                 else ''<br><small>'' @ take 150 (description item) @ ''...</small>'')
              @ ''</li>'' @ [CHR 0x0A])"
    by (rule ext) (simp add: appendItem_line)
  have html: "generateDraftHTML content t =
     (t, digestHead t
         @ concat (map (\<lambda>src.
             ''<h2>'' @ source src @ '' - '' @ category src @ ''</h2>'' @ [CHR 0x0A]
             @ ''<ul>'' @ [CHR 0x0A] @ concat (map (appendItem []) (items src))
             @ ''</ul>'' @ [CHR 0x0A, CHR 0x0A])
           (filter (\<lambda>src. items src \<noteq> []) content))
         @ digestFoot)"
    by (simp add: generateDraftHTML_def foldl_appendSource sections_of_nonempty)
  have none: "filter (\<lambda>src. items src \<noteq> []) content = []"
    if "\<forall>src \<in> set content. items src = []"
    using that by (simp add: filter_empty_conv)
  show ?thesis
    unfolding html line using none by (simp add: digestHead_def digestFoot_def)
qed

theorem digest_has_sections_of_nonempty_sources_witness:
  "items \<lparr>source = ''LA Taco'', category = ''food'', items = []\<rparr> = []
   \<and> items \<lparr>source = ''LAist'', category = ''news'', items = []\<rparr> = []
   \<and> snd (generateDraftHTML
            [\<lparr>source = ''LA Taco'', category = ''food'', items = []\<rparr>,
             \<lparr>source = ''LAist'', category = ''news'', items = []\<rparr>] ''Good Vibes'') =
        ''<h1>Good Vibes</h1>'' @ [CHR 0x0A]
        @ ''<p><em>A curated collection of Good Vibes from around LA</em></p>''
        @ [CHR 0x0A, CHR 0x0A]
        @ ''<hr>'' @ [CHR 0x0A]
        @ ''<p><small>'' @ [CHR 0xF0, CHR 0x9F, CHR 0xA4, CHR 0x96]
        @ '' <em>A project curated by Humans x AI at <a href='' @ [CHR 0x22]
        @ ''https://curations.cc'' @ [CHR 0x22] @ ''>Curations.cc</a></em></small></p>''
   \<and> snd (generateDraftHTML
            [\<lparr>source = ''LA Taco'', category = ''food'', items = []\<rparr>,
             \<lparr>source = ''LAist'', category = ''news'',
              items = [\<lparr>title = ''Art walk'', link = ''https://b.example/1'',
                        description = ''A community festival''\<rparr>]\<rparr>] ''Good Vibes'') =
        ''<h1>Good Vibes</h1>'' @ [CHR 0x0A]
        @ ''<p><em>A curated collection of Good Vibes from around LA</em></p>''
        @ [CHR 0x0A, CHR 0x0A]
        @ ''<h2>LAist - news</h2>'' @ [CHR 0x0A] @ ''<ul>'' @ [CHR 0x0A]
        @ ''<li><a href='' @ [CHR 0x22] @ ''https://b.example/1'' @ [CHR 0x22]
        @ '' target='' @ [CHR 0x22] @ ''_blank'' @ [CHR 0x22] @ ''>Art walk</a>''
        @ ''<br><small>A community festival...</small></li>'' @ [CHR 0x0A]
        @ ''</ul>'' @ [CHR 0x0A, CHR 0x0A]
        @ ''<hr>'' @ [CHR 0x0A]
        @ ''<p><small>'' @ [CHR 0xF0, CHR 0x9F, CHR 0xA4, CHR 0x96]
        @ '' <em>A project curated by Humans x AI at <a href='' @ [CHR 0x22]
        @ ''https://curations.cc'' @ [CHR 0x22] @ ''>Curations.cc</a></em></small></p>''"
proof -
  have empty: "\<forall>src \<in> set [\<lparr>source = ''LA Taco'', category = ''food'', items = []\<rparr>,
                 \<lparr>source = ''LAist'', category = ''news'', items = []\<rparr>]. items src = []"
    by simp
  show ?thesis
    using empty
      digest_has_sections_of_nonempty_sources [of
        "[\<lparr>source = ''LA Taco'', category = ''food'', items = []\<rparr>,
          \<lparr>source = ''LAist'', category = ''news'', items = []\<rparr>]" "''Good Vibes''"]
      digest_has_sections_of_nonempty_sources [of
        "[\<lparr>source = ''LA Taco'', category = ''food'', items = []\<rparr>,
          \<lparr>source = ''LAist'', category = ''news'',
           items = [\<lparr>title = ''Art walk'', link = ''https://b.example/1'',
                     description = ''A community festival''\<rparr>]\<rparr>]" "''Good Vibes''"]
    by simp
qed

section \<open>Properties of the sourcing runs\<close>

lemma fetchText_Inr:
  "fetch u = Inr r \<Longrightarrow> fetchText fetch u = resp_text r"
  by (simp add: fetchText_def bindE_def)

lemma sourceFeed_failed:
  "fetchText fetch (url feed) = Inl e \<Longrightarrow> sourceFeed sources fetch feed acc = acc"
  by (simp add: sourceFeed_def bindE_def)

lemma sourceFeed_append:
  "sourceFeed sources fetch feed acc = acc @ sourceFeed sources fetch feed []"
  by (simp add: sourceFeed_def bindE_def split: sum.splits)

text \<open>Each feed adds what its own fetch and parse give, whatever the other feeds did.\<close>

lemma sourceFeeds_concat:
  "sourceFeeds sources fetch feeds acc
     = acc @ concat (map (\<lambda>feed. sourceFeed sources fetch feed []) feeds)"
proof (induction feeds arbitrary: acc)
  case Nil
  show ?case by simp
next
  case (Cons feed feeds)
  show ?case
    using sourceFeed_append [of sources fetch feed acc] by (simp add: Cons.IH)
qed

lemma sourceFeed_keywords_only:
  "sourceFeed (sources\<lparr>rss_feeds := fs\<rparr>) fetch feed acc = sourceFeed sources fetch feed acc"
proof -
  have "keepGoodVibesContent (sources\<lparr>rss_feeds := fs\<rparr>) = keepGoodVibesContent sources"
    by (rule ext)
       (simp add: keepGoodVibesContent_def hasNegative_def goodVibesScore_def hasLAKeyword_def)
  then show ?thesis
    by (simp add: sourceFeed_def filterGoodVibesContent_def)
qed

lemma sourceFeeds_keywords_only:
  "sourceFeeds (sources\<lparr>rss_feeds := fs\<rparr>) fetch feeds acc = sourceFeeds sources fetch feeds acc"
  by (induction feeds arbitrary: acc) (simp_all add: sourceFeed_keywords_only)

lemma fetchFeed_failed:
  "fetchText fetch u = Inl e \<Longrightarrow> fetchFeed URL fetch perFeed u acc = acc"
  by (simp add: fetchFeed_def bindE_def)

lemma fetchFeed_append:
  "fetchFeed URL fetch perFeed u acc = acc @ fetchFeed URL fetch perFeed u []"
  by (simp add: fetchFeed_def bindE_def split: sum.splits)

lemma fetchFeeds_concat:
  "fetchFeeds URL fetch perFeed us acc
     = acc @ concat (map (\<lambda>u. fetchFeed URL fetch perFeed u []) us)"
proof (induction us arbitrary: acc)
  case Nil
  show ?case by simp
next
  case (Cons u us)
  show ?case
    using fetchFeed_append [of URL fetch perFeed u acc] by (simp add: Cons.IH)
qed

text \<open>For the router a feed that throws is a feed that answers an empty body.\<close>

lemma fetchFeed_empty_body:
  assumes "fetchText fetch u = Inl e"
  shows "fetchFeed URL (fetch(u := Inr \<lparr>resp_status = 200, resp_text = Inr []\<rparr>)) perFeed v []
           = fetchFeed URL fetch perFeed v []"
proof (cases "v = u")
  case True
  have "parseRSSFeed URL [] perFeed = Inr []"
    by (simp add: parseRSSFeed_def)
  with True assms show ?thesis
    by (simp add: fetchFeed_def fetchText_def bindE_def)
next
  case False
  then show ?thesis
    by (simp add: fetchFeed_def fetchText_def)
qed

lemma fetchFeeds_empty_body:
  assumes "fetchText fetch u = Inl e"
  shows "fetchFeeds URL (fetch(u := Inr \<lparr>resp_status = 200, resp_text = Inr []\<rparr>)) perFeed us []
           = fetchFeeds URL fetch perFeed us []"
  by (simp add: fetchFeeds_concat [of _ _ _ _ "[]"] fetchFeed_empty_body [OF assms])

text \<open>
  Claim C6, as amended. Each feed adds to the result what its own fetch gives, and a feed
  whose fetch or body read throws adds nothing; the run then still answers with success
  (the store accepting the write). In content-sourcer.js the stored value is that of a run
  over the list without the failed feed. In the router the stored batch is that of the same
  run with the failed feed answering an empty body: the items of the other feeds, each cut
  at \<^verbatim>\<open>Math.ceil(maxItems / sourcesToFetch.length)\<close> with the failed feed counted in the
  length, and the failed URL still in the batch's list of sources. A response that comes
  with any status and a readable body is no failure: its body is parsed like any other.
\<close>

theorem failed_feed_is_skipped:
  "sourceFeeds sources fetch feeds [] = concat (map (\<lambda>f. sourceFeed sources fetch f []) feeds)
   \<and> fetchFeeds URL fetch perFeed us [] = concat (map (\<lambda>v. fetchFeed URL fetch perFeed v []) us)
   \<and> (fetchText fetch (url feed) = Inl e \<longrightarrow> sourceFeed sources fetch feed [] = [])
   \<and> (fetchText fetch u = Inl e \<longrightarrow> fetchFeed URL fetch perFeed u [] = [])
   \<and> (rss_feeds sources = before @ feed # after \<and> fetchText fetch (url feed) = Inl e \<longrightarrow>
        handleSourceContent sources fetch today True kv
          = (SourceOk (length (rss_feeds sources))
               (foldl (\<lambda>total s. total + length (items s)) 0
                  (sourceFeeds sources fetch (before @ after) []))
               (''content_'' @ today),
             kv(''content_'' @ today \<mapsto> sourceFeeds sources fetch (before @ after) []))
        \<and> snd (handleSourceContent sources fetch today True kv)
          = snd (handleSourceContent (sources\<lparr>rss_feeds := before @ after\<rparr>) fetch today True kv))
   \<and> (sourcesToFetch body = us1 @ u # us2 \<and> fetchText fetch u = Inl e \<longrightarrow>
        routerHandleSourceContent URL fetch rnd uuid now localeDate True (Inr body) rkv
          = (RouterOk uuid
               (length (fst (filterGoodVibes rnd 0
                  (fetchFeeds URL fetch
                     (maxItemsPerFeed (body_maxItems body) (length (us1 @ u # us2)))
                     (us1 @ us2) [])))),
             rkv(''content:'' @ uuid \<mapsto>
               \<lparr>content_id = uuid, timestamp = now, content_category = body_category body,
                content_sources = us1 @ u # us2,
                content_status = ''sourced'',
                content_title = ''LA Newsletter Draft - '' @ localeDate,
                content_items = fst (filterGoodVibes rnd 0
                  (fetchFeeds URL fetch
                     (maxItemsPerFeed (body_maxItems body) (length (us1 @ u # us2)))
                     (us1 @ us2) []))\<rparr>))
        \<and> routerHandleSourceContent URL fetch rnd uuid now localeDate True (Inr body) rkv
          = routerHandleSourceContent URL
              (fetch(u := Inr \<lparr>resp_status = 200, resp_text = Inr []\<rparr>))
              rnd uuid now localeDate True (Inr body) rkv)
   \<and> (fetch (url okFeed) = Inr \<lparr>resp_status = status, resp_text = Inr rssText\<rparr> \<longrightarrow>
        (\<exists>parsed. parseRSSItems rssText = Inr parsed
           \<and> sourceFeed sources fetch okFeed acc =
               acc @ [\<lparr>source = name okFeed, category = rss_feed.category okFeed,
                       items = take 5 (filterGoodVibesContent sources parsed)\<rparr>]))
   \<and> (fetch okUrl = Inr \<lparr>resp_status = status, resp_text = Inr xmlText\<rparr> \<longrightarrow>
        (\<exists>parsed. parseRSSFeed URL xmlText perFeed = Inr parsed
           \<and> fetchFeed URL fetch perFeed okUrl racc = racc @ parsed))"
proof (intro conjI impI)
  show "sourceFeeds sources fetch feeds [] = concat (map (\<lambda>f. sourceFeed sources fetch f []) feeds)"
    by (simp add: sourceFeeds_concat [of _ _ _ "[]"])
  show "fetchFeeds URL fetch perFeed us [] = concat (map (\<lambda>v. fetchFeed URL fetch perFeed v []) us)"
    by (simp add: fetchFeeds_concat [of _ _ _ _ "[]"])
  show "sourceFeed sources fetch feed [] = []" if "fetchText fetch (url feed) = Inl e"
    using that by (rule sourceFeed_failed)
  show "fetchFeed URL fetch perFeed u [] = []" if "fetchText fetch u = Inl e"
    using that by (rule fetchFeed_failed)
next
  assume a: "rss_feeds sources = before @ feed # after \<and> fetchText fetch (url feed) = Inl e"
  then have skip: "sourceFeeds sources fetch (rss_feeds sources) []
      = sourceFeeds sources fetch (before @ after) []"
    using sourceFeed_failed [of fetch feed e sources "[]"]
    by (simp add: sourceFeeds_concat [of _ _ _ "[]"])
  then show run: "handleSourceContent sources fetch today True kv
          = (SourceOk (length (rss_feeds sources))
               (foldl (\<lambda>total s. total + length (items s)) 0
                  (sourceFeeds sources fetch (before @ after) []))
               (''content_'' @ today),
             kv(''content_'' @ today \<mapsto> sourceFeeds sources fetch (before @ after) []))"
    by (simp add: handleSourceContent_def kvPut_def Let_def)
  show "snd (handleSourceContent sources fetch today True kv)
          = snd (handleSourceContent (sources\<lparr>rss_feeds := before @ after\<rparr>) fetch today True kv)"
    unfolding run
    by (simp add: handleSourceContent_def kvPut_def Let_def sourceFeeds_keywords_only)
next
  let ?perFeed = "maxItemsPerFeed (body_maxItems body) (length (us1 @ u # us2))"
  assume b: "sourcesToFetch body = us1 @ u # us2 \<and> fetchText fetch u = Inl e"
  then have "fetchFeeds URL fetch ?perFeed (us1 @ u # us2) []
      = fetchFeeds URL fetch ?perFeed (us1 @ us2) []"
    using fetchFeed_failed [of fetch u e URL ?perFeed "[]"]
    by (simp add: fetchFeeds_concat [of _ _ _ _ "[]"])
  with b show "routerHandleSourceContent URL fetch rnd uuid now localeDate True (Inr body) rkv
          = (RouterOk uuid
               (length (fst (filterGoodVibes rnd 0
                  (fetchFeeds URL fetch ?perFeed (us1 @ us2) [])))),
             rkv(''content:'' @ uuid \<mapsto>
               \<lparr>content_id = uuid, timestamp = now, content_category = body_category body,
                content_sources = us1 @ u # us2,
                content_status = ''sourced'',
                content_title = ''LA Newsletter Draft - '' @ localeDate,
                content_items = fst (filterGoodVibes rnd 0
                  (fetchFeeds URL fetch ?perFeed (us1 @ us2) []))\<rparr>))"
    by (simp add: routerHandleSourceContent_def kvPut_def Let_def)
  from b have "fetchText fetch u = Inl e" by simp
  from fetchFeeds_empty_body [OF this]
  show "routerHandleSourceContent URL fetch rnd uuid now localeDate True (Inr body) rkv
          = routerHandleSourceContent URL
              (fetch(u := Inr \<lparr>resp_status = 200, resp_text = Inr []\<rparr>))
              rnd uuid now localeDate True (Inr body) rkv"
    by (simp add: routerHandleSourceContent_def Let_def)
next
  assume c: "fetch (url okFeed) = Inr \<lparr>resp_status = status, resp_text = Inr rssText\<rparr>"
  obtain parsed where p: "parseRSSItems rssText = Inr parsed"
    using parseRSSItems_total by blast
  with c have "sourceFeed sources fetch okFeed acc =
               acc @ [\<lparr>source = name okFeed, category = rss_feed.category okFeed,
                       items = take 5 (filterGoodVibesContent sources parsed)\<rparr>]"
    by (simp add: sourceFeed_def fetchText_def bindE_def)
  with p show "\<exists>parsed. parseRSSItems rssText = Inr parsed
           \<and> sourceFeed sources fetch okFeed acc =
               acc @ [\<lparr>source = name okFeed, category = rss_feed.category okFeed,
                       items = take 5 (filterGoodVibesContent sources parsed)\<rparr>]"
    by blast
next
  assume d: "fetch okUrl = Inr \<lparr>resp_status = status, resp_text = Inr xmlText\<rparr>"
  obtain parsed where p: "parseRSSFeed URL xmlText perFeed = Inr parsed"
    using parseRSSFeed_total by blast
  with d have "fetchFeed URL fetch perFeed okUrl racc = racc @ parsed"
    by (simp add: fetchFeed_def fetchText_def bindE_def)
  with p show "\<exists>parsed. parseRSSFeed URL xmlText perFeed = Inr parsed
           \<and> fetchFeed URL fetch perFeed okUrl racc = racc @ parsed"
    by blast
qed

lemma example_feed_content:
  "parseRSSItems
     ''<rss><item><title>Art walk in LA</title><link>https://b.example/1</link><description>A community festival</description></item></rss>''
   = Inr [\<lparr>title = ''Art walk in LA'', link = ''https://b.example/1'',
           description = ''A community festival''\<rparr>]"
  by (simp add: parseRSSItems_def parseRSSItem_def execCdataOrText_def execText_def
      matchCdataElementAt_def matchTextElementAt_def groups_def jsOr_def templateValue_def
      bindE_def regex_eval)

lemma example_error_page: "parseRSSItems ''Service Unavailable'' = Inr []"
  by (simp add: parseRSSItems_def regex_eval)

lemma example_feed_kept:
  "filterGoodVibesContent
     \<lparr>rss_feeds = fs, negative_keywords = [''crime''],
      good_vibes_keywords = [''art'', ''community'', ''festival''],
      content_filters = \<lparr>required_la_keywords = [''LA''], min_good_vibes_score = 2\<rparr>\<rparr>
     [\<lparr>title = ''Art walk in LA'', link = ''https://b.example/1'',
       description = ''A community festival''\<rparr>]
   = [\<lparr>title = ''Art walk in LA'', link = ''https://b.example/1'',
       description = ''A community festival''\<rparr>]"
  by (simp add: filterGoodVibesContent_def keepGoodVibesContent_def hasNegative_def
      goodVibesScore_def hasLAKeyword_def itemText_def toLowerCase_def toLowerChar_def
      isUpperChar_def)

lemma example_feed_router:
  "parseRSSFeed (\<lambda>u. Inr ''b.example'')
     ''<rss><item><title>Art walk</title><link>https://b.example/1</link></item><item><title>Music night</title><link>https://b.example/2</link></item></rss>''
     1
   = Inr [\<lparr>title = ''Art walk'', link = ''https://b.example/1'', excerpt = [],
           source = ''b.example''\<rparr>]"
  "parseRSSFeed (\<lambda>u. Inr ''b.example'')
     ''<rss><item><title>Art walk</title><link>https://b.example/1</link></item><item><title>Music night</title><link>https://b.example/2</link></item></rss>''
     2
   = Inr [\<lparr>title = ''Art walk'', link = ''https://b.example/1'', excerpt = [],
           source = ''b.example''\<rparr>,
          \<lparr>title = ''Music night'', link = ''https://b.example/2'', excerpt = [],
           source = ''b.example''\<rparr>]"
  by (simp_all add: parseRSSFeed_def parseFeedItem_cases regex_eval extractDomain_def bindE_def)

lemma example_router_kept:
  "fst (filterGoodVibes rnd 0
     [\<lparr>title = ''Art walk'', link = ''https://b.example/1'', excerpt = [],
       source = ''b.example''\<rparr>])
   = [\<lparr>title = ''Art walk'', link = ''https://b.example/1'', excerpt = [],
       source = ''b.example''\<rparr>]"
  "fst (filterGoodVibes rnd 0
     [\<lparr>title = ''Art walk'', link = ''https://b.example/1'', excerpt = [],
       source = ''b.example''\<rparr>,
      \<lparr>title = ''Music night'', link = ''https://b.example/2'', excerpt = [],
       source = ''b.example''\<rparr>])
   = [\<lparr>title = ''Art walk'', link = ''https://b.example/1'', excerpt = [],
       source = ''b.example''\<rparr>,
      \<lparr>title = ''Music night'', link = ''https://b.example/2'', excerpt = [],
       source = ''b.example''\<rparr>]"
  by (simp_all add: keepGoodVibes_def routerText_def bannedWords_def goodWords_def
      toLowerCase_def toLowerChar_def isUpperChar_def)

theorem failed_feed_is_skipped_witness:
  "handleSourceContent
     \<lparr>rss_feeds = [\<lparr>name = ''A'', url = ''https://a.example/rss'', category = ''news''\<rparr>,
                   \<lparr>name = ''B'', url = ''https://b.example/rss'', category = ''food''\<rparr>],
      negative_keywords = [''crime''],
      good_vibes_keywords = [''art'', ''community'', ''festival''],
      content_filters = \<lparr>required_la_keywords = [''LA''], min_good_vibes_score = 2\<rparr>\<rparr>
     (\<lambda>u. if u = ''https://b.example/rss''
           then Inr \<lparr>resp_status = 200, resp_text = Inr
             ''<rss><item><title>Art walk in LA</title><link>https://b.example/1</link><description>A community festival</description></item></rss>''\<rparr>
           else Inl NetworkError)
     ''2024-01-15'' True Map.empty
   = (SourceOk 2 1 ''content_2024-01-15'',
      [''content_2024-01-15'' \<mapsto>
         [\<lparr>source = ''B'', category = ''food'',
           items = [\<lparr>title = ''Art walk in LA'', link = ''https://b.example/1'',
                     description = ''A community festival''\<rparr>]\<rparr>]])
   \<and> routerHandleSourceContent (\<lambda>u. Inr ''b.example'')
     (\<lambda>u. if u = ''https://b.example/rss''
           then Inr \<lparr>resp_status = 200, resp_text = Inr
             ''<rss><item><title>Art walk in LA</title><link>https://b.example/1</link><description>A community festival</description></item></rss>''\<rparr>
           else Inl NetworkError)
     (\<lambda>n. 1 / 2) ''id-1'' ''2024-01-15T06:00:00.000Z'' ''1/15/2024'' True
     (Inr \<lparr>body_sources = [''https://a.example/rss'', ''https://b.example/rss''],
           body_category = ''general'', body_maxItems = 10\<rparr>)
     Map.empty
   = (RouterOk ''id-1'' 1,
      [''content:id-1'' \<mapsto>
         \<lparr>content_id = ''id-1'', timestamp = ''2024-01-15T06:00:00.000Z'',
          content_category = ''general'',
          content_sources = [''https://a.example/rss'', ''https://b.example/rss''],
          content_status = ''sourced'',
          content_title = ''LA Newsletter Draft - 1/15/2024'',
          content_items = [\<lparr>title = ''Art walk in LA'', link = ''https://b.example/1'',
             excerpt = ''A community festival...'', source = ''b.example''\<rparr>]\<rparr>])
   \<and> sourceFeed
     \<lparr>rss_feeds = [\<lparr>name = ''A'', url = ''https://a.example/rss'', category = ''news''\<rparr>,
                   \<lparr>name = ''B'', url = ''https://b.example/rss'', category = ''food''\<rparr>],
      negative_keywords = [''crime''],
      good_vibes_keywords = [''art'', ''community'', ''festival''],
      content_filters = \<lparr>required_la_keywords = [''LA''], min_good_vibes_score = 2\<rparr>\<rparr>
     (\<lambda>u. if u = ''https://b.example/rss''
           then Inr \<lparr>resp_status = 200, resp_text = Inr
             ''<rss><item><title>Art walk in LA</title><link>https://b.example/1</link><description>A community festival</description></item></rss>''\<rparr>
           else Inl NetworkError)
     \<lparr>name = ''A'', url = ''https://a.example/rss'', category = ''news''\<rparr> [] = []
   \<and> sourceFeed
     \<lparr>rss_feeds = [\<lparr>name = ''A'', url = ''https://a.example/rss'', category = ''news''\<rparr>,
                   \<lparr>name = ''B'', url = ''https://b.example/rss'', category = ''food''\<rparr>],
      negative_keywords = [''crime''],
      good_vibes_keywords = [''art'', ''community'', ''festival''],
      content_filters = \<lparr>required_la_keywords = [''LA''], min_good_vibes_score = 2\<rparr>\<rparr>
     (\<lambda>u. if u = ''https://b.example/rss''
           then Inr \<lparr>resp_status = 200, resp_text = Inr
             ''<rss><item><title>Art walk in LA</title><link>https://b.example/1</link><description>A community festival</description></item></rss>''\<rparr>
           else Inl NetworkError)
     \<lparr>name = ''B'', url = ''https://b.example/rss'', category = ''food''\<rparr> []
     = [\<lparr>source = ''B'', category = ''food'',
         items = [\<lparr>title = ''Art walk in LA'', link = ''https://b.example/1'',
                   description = ''A community festival''\<rparr>]\<rparr>]
   \<and> fetchFeed (\<lambda>u. Inr ''b.example'')
     (\<lambda>u. if u = ''https://b.example/rss''
           then Inr \<lparr>resp_status = 200, resp_text = Inr
             ''<rss><item><title>Art walk in LA</title><link>https://b.example/1</link><description>A community festival</description></item></rss>''\<rparr>
           else Inl NetworkError)
     5 ''https://a.example/rss'' [] = []
   \<and> fetchFeed (\<lambda>u. Inr ''b.example'')
     (\<lambda>u. if u = ''https://b.example/rss''
           then Inr \<lparr>resp_status = 200, resp_text = Inr
             ''<rss><item><title>Art walk in LA</title><link>https://b.example/1</link><description>A community festival</description></item></rss>''\<rparr>
           else Inl NetworkError)
     5 ''https://b.example/rss'' []
     = [\<lparr>title = ''Art walk in LA'', link = ''https://b.example/1'',
         excerpt = ''A community festival...'', source = ''b.example''\<rparr>]"
proof -
  let ?sources = "\<lparr>rss_feeds = [\<lparr>name = ''A'', url = ''https://a.example/rss'', category = ''news''\<rparr>,
                   \<lparr>name = ''B'', url = ''https://b.example/rss'', category = ''food''\<rparr>],
      negative_keywords = [''crime''],
      good_vibes_keywords = [''art'', ''community'', ''festival''],
      content_filters = \<lparr>required_la_keywords = [''LA''], min_good_vibes_score = 2\<rparr>\<rparr>"
  let ?xml = "''<rss><item><title>Art walk in LA</title><link>https://b.example/1</link><description>A community festival</description></item></rss>''"
  let ?fetch = "\<lambda>u. if u = ''https://b.example/rss''
           then Inr \<lparr>resp_status = 200, resp_text = Inr ?xml\<rparr>
           else Inl NetworkError"
  let ?A = "\<lparr>name = ''A'', url = ''https://a.example/rss'', category = ''news''\<rparr>"
  let ?B = "\<lparr>name = ''B'', url = ''https://b.example/rss'', category = ''food''\<rparr>"
  let ?body = "\<lparr>body_sources = [''https://a.example/rss'', ''https://b.example/rss''],
           body_category = ''general'', body_maxItems = 10\<rparr>"
  let ?item = "\<lparr>title = ''Art walk in LA'', link = ''https://b.example/1'',
             excerpt = ''A community festival...'', source = ''b.example''\<rparr>"
  have feeds: "rss_feeds ?sources = [] @ ?A # [?B]"
    by simp
  have fails: "fetchText ?fetch (url ?A) = Inl NetworkError"
    by (simp add: fetchText_def bindE_def)
  have urls: "sourcesToFetch ?body = [] @ ''https://a.example/rss'' # [''https://b.example/rss'']"
    by (simp add: sourcesToFetch_def)
  have rfails: "fetchText ?fetch ''https://a.example/rss'' = Inl NetworkError"
    by (simp add: fetchText_def bindE_def)
  have cap: "maxItemsPerFeed (body_maxItems ?body)
      (length ([] @ ''https://a.example/rss'' # [''https://b.example/rss''])) = 5"
    by (simp add: maxItemsPerFeed_def numeral_2_eq_2 [symmetric])
  have stored: "sourceFeeds ?sources ?fetch ([] @ [?B]) []
      = [\<lparr>source = ''B'', category = ''food'',
           items = [\<lparr>title = ''Art walk in LA'', link = ''https://b.example/1'',
                     description = ''A community festival''\<rparr>]\<rparr>]"
    by (simp add: sourceFeed_def fetchText_def bindE_def example_feed_content example_feed_kept)
  have parsed: "parseRSSFeed (\<lambda>u. Inr ''b.example'') ?xml 5 = Inr [?item]"
    by (simp add: parseRSSFeed_def parseFeedItem_cases regex_eval extractDomain_def bindE_def)
  have collected: "fetchFeeds (\<lambda>u. Inr ''b.example'') ?fetch 5
       ([] @ [''https://b.example/rss'']) [] = [?item]"
    by (simp add: fetchFeed_def fetchText_def bindE_def parsed)
  have kept: "fst (filterGoodVibes (\<lambda>n. 1 / 2) 0 [?item]) = [?item]"
    by (simp add: keepGoodVibes_def routerText_def bannedWords_def goodWords_def
        toLowerCase_def toLowerChar_def isUpperChar_def)
  note inst = failed_feed_is_skipped [of ?sources ?fetch "[]" "\<lambda>u. Inr ''b.example''" 5 "[]"
      ?A NetworkError "''https://a.example/rss''" "[]" "[?B]" "''2024-01-15''" Map.empty
      ?body "[]" "[''https://b.example/rss'']" "\<lambda>n. 1 / 2" "''id-1''"
      "''2024-01-15T06:00:00.000Z''" "''1/15/2024''" Map.empty
      ?B 200 ?xml "[]" "''https://b.example/rss''" ?xml "[]"]
  from inst feeds fails
  have run: "handleSourceContent ?sources ?fetch ''2024-01-15'' True Map.empty
        = (SourceOk (length (rss_feeds ?sources))
             (foldl (\<lambda>total s. total + length (items s)) 0
                (sourceFeeds ?sources ?fetch ([] @ [?B]) []))
             (''content_'' @ ''2024-01-15''),
           [''content_'' @ ''2024-01-15'' \<mapsto> sourceFeeds ?sources ?fetch ([] @ [?B]) []])"
    by blast
  from inst urls rfails
  have rrun: "routerHandleSourceContent (\<lambda>u. Inr ''b.example'') ?fetch (\<lambda>n. 1 / 2) ''id-1''
         ''2024-01-15T06:00:00.000Z'' ''1/15/2024'' True (Inr ?body) Map.empty
        = (RouterOk ''id-1''
             (length (fst (filterGoodVibes (\<lambda>n. 1 / 2) 0
                (fetchFeeds (\<lambda>u. Inr ''b.example'') ?fetch
                   (maxItemsPerFeed (body_maxItems ?body)
                      (length ([] @ ''https://a.example/rss'' # [''https://b.example/rss''])))
                   ([] @ [''https://b.example/rss'']) [])))),
           [''content:'' @ ''id-1'' \<mapsto>
             \<lparr>content_id = ''id-1'', timestamp = ''2024-01-15T06:00:00.000Z'',
              content_category = body_category ?body,
              content_sources = [] @ ''https://a.example/rss'' # [''https://b.example/rss''],
              content_status = ''sourced'',
              content_title = ''LA Newsletter Draft - '' @ ''1/15/2024'',
              content_items = fst (filterGoodVibes (\<lambda>n. 1 / 2) 0
                (fetchFeeds (\<lambda>u. Inr ''b.example'') ?fetch
                   (maxItemsPerFeed (body_maxItems ?body)
                      (length ([] @ ''https://a.example/rss'' # [''https://b.example/rss''])))
                   ([] @ [''https://b.example/rss'']) []))\<rparr>])"
    by blast
  have 1: "handleSourceContent ?sources ?fetch ''2024-01-15'' True Map.empty
     = (SourceOk 2 1 ''content_2024-01-15'',
      [''content_2024-01-15'' \<mapsto>
         [\<lparr>source = ''B'', category = ''food'',
           items = [\<lparr>title = ''Art walk in LA'', link = ''https://b.example/1'',
                     description = ''A community festival''\<rparr>]\<rparr>]])"
    unfolding run stored by simp
  have 2: "routerHandleSourceContent (\<lambda>u. Inr ''b.example'') ?fetch (\<lambda>n. 1 / 2) ''id-1''
         ''2024-01-15T06:00:00.000Z'' ''1/15/2024'' True (Inr ?body) Map.empty
     = (RouterOk ''id-1'' 1,
      [''content:id-1'' \<mapsto>
         \<lparr>content_id = ''id-1'', timestamp = ''2024-01-15T06:00:00.000Z'',
          content_category = ''general'',
          content_sources = [''https://a.example/rss'', ''https://b.example/rss''],
          content_status = ''sourced'',
          content_title = ''LA Newsletter Draft - 1/15/2024'',
          content_items = [?item]\<rparr>])"
    unfolding rrun cap collected kept by simp
  from inst fails have 3: "sourceFeed ?sources ?fetch ?A [] = []"
    by blast
  from inst rfails have 4: "fetchFeed (\<lambda>u. Inr ''b.example'') ?fetch 5 ''https://a.example/rss'' [] = []"
    by blast
  have answers: "?fetch (url ?B) = Inr \<lparr>resp_status = 200, resp_text = Inr ?xml\<rparr>"
    by simp
  have ranswers: "?fetch ''https://b.example/rss'' = Inr \<lparr>resp_status = 200, resp_text = Inr ?xml\<rparr>"
    by simp
  from inst answers
  have "\<exists>parsed. parseRSSItems ?xml = Inr parsed
      \<and> sourceFeed ?sources ?fetch ?B [] =
          [] @ [\<lparr>source = name ?B, category = rss_feed.category ?B,
                 items = take 5 (filterGoodVibesContent ?sources parsed)\<rparr>]"
    by blast
  then have 5: "sourceFeed ?sources ?fetch ?B []
     = [\<lparr>source = ''B'', category = ''food'',
         items = [\<lparr>title = ''Art walk in LA'', link = ''https://b.example/1'',
                   description = ''A community festival''\<rparr>]\<rparr>]"
    by (auto simp add: example_feed_content example_feed_kept)
  from inst ranswers
  have "\<exists>parsed. parseRSSFeed (\<lambda>u. Inr ''b.example'') ?xml 5 = Inr parsed
      \<and> fetchFeed (\<lambda>u. Inr ''b.example'') ?fetch 5 ''https://b.example/rss'' [] = [] @ parsed"
    by blast
  then have 6: "fetchFeed (\<lambda>u. Inr ''b.example'') ?fetch 5 ''https://b.example/rss'' [] = [?item]"
    by (auto simp add: parsed)
  from 1 2 3 5 4 6 show ?thesis by blast
qed

text \<open>
  Claim C6 as stated fails. In the router, with \<^verbatim>\<open>maxItems = 2\<close>, the run over a feed that
  throws and a feed with two items stores one item, and the run over the remaining feed
  alone stores two: the failed feed counts in the cap of each feed. In content-sourcer.js a
  feed that answers 503 with an error page does not throw, and the run stores an entry for
  it, which the run over the remaining feed does not.
\<close>

theorem stored_result_is_not_that_of_remaining_feeds:
  "fst (routerHandleSourceContent (\<lambda>u. Inr ''b.example'')
     (\<lambda>u. if u = ''https://b.example/rss''
           then Inr \<lparr>resp_status = 200, resp_text = Inr
             ''<rss><item><title>Art walk</title><link>https://b.example/1</link></item><item><title>Music night</title><link>https://b.example/2</link></item></rss>''\<rparr>
           else Inl NetworkError)
     (\<lambda>n. 1 / 2) ''id-1'' ''2024-01-15T06:00:00.000Z'' ''1/15/2024'' True
     (Inr \<lparr>body_sources = [''https://a.example/rss'', ''https://b.example/rss''],
           body_category = ''general'', body_maxItems = 2\<rparr>)
     Map.empty) = RouterOk ''id-1'' 1
   \<and> fst (routerHandleSourceContent (\<lambda>u. Inr ''b.example'')
     (\<lambda>u. if u = ''https://b.example/rss''
           then Inr \<lparr>resp_status = 200, resp_text = Inr
             ''<rss><item><title>Art walk</title><link>https://b.example/1</link></item><item><title>Music night</title><link>https://b.example/2</link></item></rss>''\<rparr>
           else Inl NetworkError)
     (\<lambda>n. 1 / 2) ''id-1'' ''2024-01-15T06:00:00.000Z'' ''1/15/2024'' True
     (Inr \<lparr>body_sources = [''https://b.example/rss''],
           body_category = ''general'', body_maxItems = 2\<rparr>)
     Map.empty) = RouterOk ''id-1'' 2
   \<and> snd (handleSourceContent
     \<lparr>rss_feeds = [\<lparr>name = ''A'', url = ''https://a.example/rss'', category = ''news''\<rparr>,
                   \<lparr>name = ''B'', url = ''https://b.example/rss'', category = ''food''\<rparr>],
      negative_keywords = [''crime''],
      good_vibes_keywords = [''art'', ''community'', ''festival''],
      content_filters = \<lparr>required_la_keywords = [''LA''], min_good_vibes_score = 2\<rparr>\<rparr>
     (\<lambda>u. if u = ''https://b.example/rss''
           then Inr \<lparr>resp_status = 200, resp_text = Inr
             ''<rss><item><title>Art walk in LA</title><link>https://b.example/1</link><description>A community festival</description></item></rss>''\<rparr>
           else Inr \<lparr>resp_status = 503, resp_text = Inr ''Service Unavailable''\<rparr>)
     ''2024-01-15'' True Map.empty) ''content_2024-01-15''
     = Some [\<lparr>source = ''A'', category = ''news'', items = []\<rparr>,
             \<lparr>source = ''B'', category = ''food'',
              items = [\<lparr>title = ''Art walk in LA'', link = ''https://b.example/1'',
                        description = ''A community festival''\<rparr>]\<rparr>]
   \<and> snd (handleSourceContent
     \<lparr>rss_feeds = [\<lparr>name = ''B'', url = ''https://b.example/rss'', category = ''food''\<rparr>],
      negative_keywords = [''crime''],
      good_vibes_keywords = [''art'', ''community'', ''festival''],
      content_filters = \<lparr>required_la_keywords = [''LA''], min_good_vibes_score = 2\<rparr>\<rparr>
     (\<lambda>u. if u = ''https://b.example/rss''
           then Inr \<lparr>resp_status = 200, resp_text = Inr
             ''<rss><item><title>Art walk in LA</title><link>https://b.example/1</link><description>A community festival</description></item></rss>''\<rparr>
           else Inr \<lparr>resp_status = 503, resp_text = Inr ''Service Unavailable''\<rparr>)
     ''2024-01-15'' True Map.empty) ''content_2024-01-15''
     = Some [\<lparr>source = ''B'', category = ''food'',
              items = [\<lparr>title = ''Art walk in LA'', link = ''https://b.example/1'',
                        description = ''A community festival''\<rparr>]\<rparr>]"
proof -
  let ?U = "\<lambda>u. Inr ''b.example''"
  let ?xml = "''<rss><item><title>Art walk</title><link>https://b.example/1</link></item><item><title>Music night</title><link>https://b.example/2</link></item></rss>''"
  let ?fetch = "\<lambda>u. if u = ''https://b.example/rss''
           then Inr \<lparr>resp_status = 200, resp_text = Inr ?xml\<rparr>
           else Inl NetworkError"
  let ?art = "\<lparr>title = ''Art walk'', link = ''https://b.example/1'', excerpt = [],
       source = ''b.example''\<rparr>"
  let ?music = "\<lparr>title = ''Music night'', link = ''https://b.example/2'', excerpt = [],
       source = ''b.example''\<rparr>"
  have cap1: "maxItemsPerFeed 2 (length [''https://a.example/rss'', ''https://b.example/rss'']) = 1"
    by (simp add: maxItemsPerFeed_def numeral_2_eq_2 [symmetric])
  have cap2: "maxItemsPerFeed 2 (length [''https://b.example/rss'']) = 2"
    by (simp add: maxItemsPerFeed_def)
  have both: "fetchFeeds ?U ?fetch 1 [''https://a.example/rss'', ''https://b.example/rss''] []
      = [?art]"
    using example_feed_router(1) by (simp add: fetchFeed_def fetchText_def bindE_def)
  have alone: "fetchFeeds ?U ?fetch 2 [''https://b.example/rss''] [] = [?art, ?music]"
    using example_feed_router(2) by (simp add: fetchFeed_def fetchText_def bindE_def)
  have run: "fst (routerHandleSourceContent URL fetch rnd uuid now localeDate True (Inr body) rkv)
      = RouterOk uuid (length (fst (filterGoodVibes rnd 0
          (fetchFeeds URL fetch (maxItemsPerFeed (body_maxItems body) (length (sourcesToFetch body)))
             (sourcesToFetch body) []))))"
    for URL fetch rnd uuid now localeDate body rkv
    by (simp add: routerHandleSourceContent_def Let_def kvPut_def)
  have urls1: "sourcesToFetch \<lparr>body_sources = [''https://a.example/rss'', ''https://b.example/rss''],
           body_category = ''general'', body_maxItems = 2\<rparr>
      = [''https://a.example/rss'', ''https://b.example/rss'']"
    by (simp add: sourcesToFetch_def)
  have urls2: "sourcesToFetch \<lparr>body_sources = [''https://b.example/rss''],
           body_category = ''general'', body_maxItems = 2\<rparr>
      = [''https://b.example/rss'']"
    by (simp add: sourcesToFetch_def)
  have 1: "fst (routerHandleSourceContent ?U ?fetch (\<lambda>n. 1 / 2) ''id-1''
      ''2024-01-15T06:00:00.000Z'' ''1/15/2024'' True
      (Inr \<lparr>body_sources = [''https://a.example/rss'', ''https://b.example/rss''],
           body_category = ''general'', body_maxItems = 2\<rparr>)
      Map.empty) = RouterOk ''id-1'' 1"
    unfolding run urls1 request_body.select_convs cap1 both example_router_kept(1) by simp
  have 2: "fst (routerHandleSourceContent ?U ?fetch (\<lambda>n. 1 / 2) ''id-1''
      ''2024-01-15T06:00:00.000Z'' ''1/15/2024'' True
      (Inr \<lparr>body_sources = [''https://b.example/rss''],
           body_category = ''general'', body_maxItems = 2\<rparr>)
      Map.empty) = RouterOk ''id-1'' 2"
    unfolding run urls2 request_body.select_convs cap2 alone example_router_kept(2) by simp
  have none: "filterGoodVibesContent sources [] = []" for sources
    by (simp add: filterGoodVibesContent_def)
  have 3: "snd (handleSourceContent
     \<lparr>rss_feeds = [\<lparr>name = ''A'', url = ''https://a.example/rss'', category = ''news''\<rparr>,
                   \<lparr>name = ''B'', url = ''https://b.example/rss'', category = ''food''\<rparr>],
      negative_keywords = [''crime''],
      good_vibes_keywords = [''art'', ''community'', ''festival''],
      content_filters = \<lparr>required_la_keywords = [''LA''], min_good_vibes_score = 2\<rparr>\<rparr>
     (\<lambda>u. if u = ''https://b.example/rss''
           then Inr \<lparr>resp_status = 200, resp_text = Inr
             ''<rss><item><title>Art walk in LA</title><link>https://b.example/1</link><description>A community festival</description></item></rss>''\<rparr>
           else Inr \<lparr>resp_status = 503, resp_text = Inr ''Service Unavailable''\<rparr>)
     ''2024-01-15'' True Map.empty) ''content_2024-01-15''
     = Some [\<lparr>source = ''A'', category = ''news'', items = []\<rparr>,
             \<lparr>source = ''B'', category = ''food'',
              items = [\<lparr>title = ''Art walk in LA'', link = ''https://b.example/1'',
                        description = ''A community festival''\<rparr>]\<rparr>]"
    by (simp add: handleSourceContent_def Let_def kvPut_def sourceFeed_def fetchText_def
        bindE_def example_feed_content example_error_page example_feed_kept none)
  have 4: "snd (handleSourceContent
     \<lparr>rss_feeds = [\<lparr>name = ''B'', url = ''https://b.example/rss'', category = ''food''\<rparr>],
      negative_keywords = [''crime''],
      good_vibes_keywords = [''art'', ''community'', ''festival''],
      content_filters = \<lparr>required_la_keywords = [''LA''], min_good_vibes_score = 2\<rparr>\<rparr>
     (\<lambda>u. if u = ''https://b.example/rss''
           then Inr \<lparr>resp_status = 200, resp_text = Inr
             ''<rss><item><title>Art walk in LA</title><link>https://b.example/1</link><description>A community festival</description></item></rss>''\<rparr>
           else Inr \<lparr>resp_status = 503, resp_text = Inr ''Service Unavailable''\<rparr>)
     ''2024-01-15'' True Map.empty) ''content_2024-01-15''
     = Some [\<lparr>source = ''B'', category = ''food'',
              items = [\<lparr>title = ''Art walk in LA'', link = ''https://b.example/1'',
                        description = ''A community festival''\<rparr>]\<rparr>]"
    by (simp add: handleSourceContent_def Let_def kvPut_def sourceFeed_def fetchText_def
        bindE_def example_feed_content example_feed_kept)
  from 1 2 3 4 show ?thesis by blast
qed

section \<open>Properties of the admin token\<close>

lemma sext_lt:
  fixes x y z :: nat
  assumes "x < 256" "y < 256" "z < 256"
  shows "x div 4 < 64" "x mod 4 * 16 + y div 16 < 64" "y mod 16 * 4 + z div 64 < 64"
    "z mod 64 < 64" "x mod 4 * 16 < 64" "y mod 16 * 4 < 64"
  using assms by simp_all (arith+)?

lemma recombine1:
  fixes x y :: nat
  assumes "y < 256"
  shows "x div 4 * 4 + (x mod 4 * 16 + y div 16) div 16 = x"
proof -
  have "y div 16 < 16" using assms by simp
  then have "(x mod 4 * 16 + y div 16) div 16 = x mod 4" by simp
  then show ?thesis by simp
qed

lemma recombine2:
  fixes x y z :: nat
  assumes "y < 256" "z < 256"
  shows "(x mod 4 * 16 + y div 16) mod 16 * 16 + (y mod 16 * 4 + z div 64) div 4 = y"
proof -
  have a: "y div 16 < 16" using assms by simp
  have b: "z div 64 < 4" using assms by simp
  have "(x mod 4 * 16 + y div 16) mod 16 = y div 16" using a by simp
  moreover have "(y mod 16 * 4 + z div 64) div 4 = y mod 16" using b by simp
  ultimately show ?thesis by simp
qed

lemma recombine3:
  fixes y z :: nat
  assumes "z < 256"
  shows "(y mod 16 * 4 + z div 64) mod 4 * 64 + z mod 64 = z"
proof -
  have b: "z div 64 < 4" using assms by simp
  have "(y mod 16 * 4 + z div 64) mod 4 = z div 64" using b by simp
  then show ?thesis by simp
qed


lemma all64: "list_all (\<lambda>n. base64urlEscape [b64 n] = [b64urlchars ! n] \<and> b64urlValue (b64urlchars ! n) = n) [0..<64]"
  by code_simp

lemma b64_facts:
  assumes "n < 64"
  shows "base64urlEscape [b64 n] = [b64urlchars ! n] \<and> b64urlValue (b64urlchars ! n) = n"
proof -
  from assms have "n \<in> set [0..<64]"
    by (simp only: set_upt atLeast0LessThan lessThan_iff)
  with all64 show ?thesis
    unfolding list_all_iff by (rule bspec)
qed

lemma esc_b64: "n < 64 \<Longrightarrow> base64urlEscape [b64 n] = [b64urlchars ! n]"
  and val_b64: "n < 64 \<Longrightarrow> b64urlValue (b64urlchars ! n) = n"
  using b64_facts by blast+

lemma escape_append: "base64urlEscape (xs @ ys) = base64urlEscape xs @ base64urlEscape ys"
  by (simp add: base64urlEscape_def)

lemma escape_pad: "base64urlEscape [CHR ''=''] = []" "base64urlEscape [] = []"
  by (simp_all add: base64urlEscape_def)

lemma escape_Cons: "base64urlEscape (x # xs) = base64urlEscape [x] @ base64urlEscape xs"
  using escape_append [of "[x]" xs] by (simp only: append_Cons append_Nil)

lemma escape4:
  "base64urlEscape (p # q # r # s # rest) =
     base64urlEscape [p] @ base64urlEscape [q] @ base64urlEscape [r] @ base64urlEscape [s]
     @ base64urlEscape rest"
  using escape_Cons [of p "q # r # s # rest"] escape_Cons [of q "r # s # rest"]
    escape_Cons [of r "s # rest"] escape_Cons [of s rest]
  by (simp only:)

lemma sextets_lt: "n \<in> set (sextets s) \<Longrightarrow> n < 64"
proof (induction s arbitrary: n rule: sextets.induct)
  case 1
  then show ?case by simp
next
  case (2 a)
  note lt = sext_lt [OF nat_of_char_less_256 [of a] nat_of_char_less_256 [of a]
      nat_of_char_less_256 [of a]]
  from "2.prems" have "n = (of_char a :: nat) div 4 \<or> n = ((of_char a :: nat) mod 4) * 16"
    by (simp only: sextets.simps list.set insert_iff empty_iff simp_thms)
  with lt show ?case by blast
next
  case (3 a b)
  note lt = sext_lt [OF nat_of_char_less_256 [of a] nat_of_char_less_256 [of b]
      nat_of_char_less_256 [of b]]
  from "3.prems" have "n = (of_char a :: nat) div 4
      \<or> n = ((of_char a :: nat) mod 4) * 16 + (of_char b :: nat) div 16
      \<or> n = ((of_char b :: nat) mod 16) * 4"
    by (simp only: sextets.simps list.set insert_iff empty_iff simp_thms)
  with lt show ?case by blast
next
  case (4 a b c rest)
  note lt = sext_lt [OF nat_of_char_less_256 [of a] nat_of_char_less_256 [of b]
      nat_of_char_less_256 [of c]]
  from "4.prems" have "n = (of_char a :: nat) div 4
      \<or> n = ((of_char a :: nat) mod 4) * 16 + (of_char b :: nat) div 16
      \<or> n = ((of_char b :: nat) mod 16) * 4 + (of_char c :: nat) div 64
      \<or> n = (of_char c :: nat) mod 64
      \<or> n \<in> set (sextets rest)"
    by (simp only: sextets.simps set_append list.set insert_iff empty_iff Un_iff simp_thms disj_assoc)
  with lt "4.IH" show ?case by blast
qed

lemma escape_btoa: "base64urlEscape (btoa s) = map (\<lambda>n. b64urlchars ! n) (sextets s)"
proof (induction s rule: btoa.induct)
  case 1
  show ?case by (simp add: escape_pad)
next
  case (2 a)
  note lt = sext_lt [OF nat_of_char_less_256 [of a] nat_of_char_less_256 [of a] nat_of_char_less_256 [of a]]
  show ?case
    by (simp add: escape4 escape_pad esc_b64 lt)
next
  case (3 a b)
  note lt = sext_lt [OF nat_of_char_less_256 [of a] nat_of_char_less_256 [of b] nat_of_char_less_256 [of b]]
  show ?case
    by (simp add: escape4 escape_pad esc_b64 lt)
next
  case (4 a b c rest)
  note lt = sext_lt [OF nat_of_char_less_256 [of a] nat_of_char_less_256 [of b] nat_of_char_less_256 [of c]]
  show ?case
    by (simp add: escape4 escape_append esc_b64 lt 4)
qed

lemma char_recombine:
  "char_of ((of_char a :: nat) div 4 * 4 + ((of_char a :: nat) mod 4 * 16 + (of_char b :: nat) div 16) div 16) = a"
  "char_of (((of_char a :: nat) mod 4 * 16 + (of_char b :: nat) div 16) mod 16 * 16
     + ((of_char b :: nat) mod 16 * 4 + (of_char c :: nat) div 64) div 4) = b"
  "char_of (((of_char b :: nat) mod 16 * 4 + (of_char c :: nat) div 64) mod 4 * 64
     + (of_char c :: nat) mod 64) = c"
  by (simp_all only: recombine1 [OF nat_of_char_less_256]
      recombine2 [OF nat_of_char_less_256 nat_of_char_less_256]
      recombine3 [OF nat_of_char_less_256] char_of_char)

lemma char_recombine_last:
  "char_of ((of_char a :: nat) div 4 * 4 + ((of_char a :: nat) mod 4 * 16) div 16) = a"
  "char_of (((of_char a :: nat) mod 4 * 16 + (of_char b :: nat) div 16) mod 16 * 16
     + ((of_char b :: nat) mod 16 * 4) div 4) = b"
proof -
  show "char_of ((of_char a :: nat) div 4 * 4 + ((of_char a :: nat) mod 4 * 16) div 16) = a"
    by simp
  have "((of_char a :: nat) mod 4 * 16 + (of_char b :: nat) div 16) mod 16 * 16
        + ((of_char b :: nat) mod 16 * 4) div 4 = of_char b"
    using recombine2 [OF nat_of_char_less_256 [of b], of 0 "of_char a"] by simp
  then show "char_of (((of_char a :: nat) mod 4 * 16 + (of_char b :: nat) div 16) mod 16 * 16
     + ((of_char b :: nat) mod 16 * 4) div 4) = b"
    by (simp only: char_of_char)
qed

lemma decode_sextets: "map char_of (decodeSextets (sextets s)) = s"
proof (induction s rule: sextets.induct)
  case 1
  show ?case by simp
next
  case (2 a)
  show ?case
    by (simp only: sextets.simps decodeSextets.simps list.map char_recombine_last)
next
  case (3 a b)
  show ?case
    by (simp only: sextets.simps decodeSextets.simps list.map char_recombine_last
        char_recombine)
next
  case (4 a b c rest)
  then show ?case
    by (simp only: sextets.simps decodeSextets.simps list.map map_append append_Cons append_Nil
        char_recombine)
qed

lemma base64url_roundtrip: "base64urlDecode (base64urlEscape (btoa s)) = s"
proof -
  have "map b64urlValue (map (\<lambda>n. b64urlchars ! n) (sextets s)) = sextets s"
    by (simp add: map_idI val_b64 sextets_lt)
  then show ?thesis
    by (simp add: base64urlDecode_def escape_btoa decode_sextets)
qed


lemma splitOn_no_sep: "sep \<notin> set s \<Longrightarrow> splitOn sep s = [s]"
  by (induction s) auto

lemma splitOn_append:
  "sep \<notin> set a \<Longrightarrow> splitOn sep (a @ sep # b) = a # splitOn sep b"
  by (induction a) auto

lemma b64url_no_dot: "CHR ''.'' \<notin> set (base64urlEscape (btoa s))"
proof -
  have "set (base64urlEscape (btoa s)) \<subseteq> set b64urlchars"
    unfolding escape_btoa
  proof
    fix c
    assume "c \<in> set (map ((!) b64urlchars) (sextets s))"
    then obtain n where n: "n \<in> set (sextets s)" and c: "c = b64urlchars ! n" by auto
    have "length b64urlchars = 64" by (simp add: b64urlchars_def)
    with sextets_lt [OF n] have "b64urlchars ! n \<in> set b64urlchars" by simp
    with c show "c \<in> set b64urlchars" by simp
  qed
  moreover have "CHR ''.'' \<notin> set b64urlchars" by (simp add: b64urlchars_def)
  ultimately show ?thesis by blast
qed

lemma key_parts:
  assumes "CHR '':'' \<notin> set kid" and "CHR '':'' \<notin> set secret"
  shows "keyId (kid @ '':'' @ secret) = kid" and "keySecret (kid @ '':'' @ secret) = Some secret"
  using assms by (simp_all add: keyId_def keySecret_def splitOn_append splitOn_no_sep)

lemma token_segments:
  "splitOn CHR ''.'' (generateGhostJWT now adminAPIKey) =
     [encodedHeader adminAPIKey, encodedPayload now, signature now adminAPIKey]"
proof -
  have h: "CHR ''.'' \<notin> set (encodedHeader adminAPIKey)"
    and p: "CHR ''.'' \<notin> set (encodedPayload now)"
    and s: "CHR ''.'' \<notin> set (signature now adminAPIKey)"
    by (simp_all only: encodedHeader_def encodedPayload_def signature_def b64url_no_dot
        not_False_eq_True)
  show ?thesis
    unfolding generateGhostJWT_def
    using splitOn_append [OF h, of "encodedPayload now @ ''.'' @ signature now adminAPIKey"]
      splitOn_append [OF p, of "signature now adminAPIKey"] splitOn_no_sep [OF s]
    by simp
qed

text \<open>
  Claim C5. For an admin key \<open>id:secret\<close>, the minted token has three segments, and
  decoding the third one gives the first segment, a dot, the second segment, a dot and the
  secret itself: the secret is the rest of the decoded signature after the two segments that
  the token shows anyway, and, when the secret has no dot (a Ghost secret is hexadecimal),
  exactly what follows the last dot.
\<close>

theorem signature_reveals_secret:
  assumes "CHR '':'' \<notin> set kid" and "CHR '':'' \<notin> set secret"
  shows "length (splitOn CHR ''.'' (generateGhostJWT now (kid @ '':'' @ secret))) = 3
     \<and> base64urlDecode (splitOn CHR ''.'' (generateGhostJWT now (kid @ '':'' @ secret)) ! 2)
         = splitOn CHR ''.'' (generateGhostJWT now (kid @ '':'' @ secret)) ! 0 @ ''.''
           @ splitOn CHR ''.'' (generateGhostJWT now (kid @ '':'' @ secret)) ! 1 @ ''.''
           @ secret
     \<and> (CHR ''.'' \<notin> set secret \<longrightarrow>
          last (splitOn CHR ''.''
            (base64urlDecode (splitOn CHR ''.'' (generateGhostJWT now (kid @ '':'' @ secret)) ! 2)))
          = secret)"
proof -
  let ?key = "kid @ '':'' @ secret"
  have dec: "base64urlDecode (signature now ?key)
      = encodedHeader ?key @ ''.'' @ encodedPayload now @ ''.'' @ secret"
    using key_parts [OF assms] by (simp add: signature_def base64url_roundtrip templateValue_def)
  have h: "CHR ''.'' \<notin> set (encodedHeader ?key)"
    and p: "CHR ''.'' \<notin> set (encodedPayload now)"
    by (simp_all only: encodedHeader_def encodedPayload_def b64url_no_dot not_False_eq_True)
  have lst: "last (splitOn CHR ''.'' (encodedHeader ?key @ ''.'' @ encodedPayload now @ ''.'' @ secret)) = secret"
    if "CHR ''.'' \<notin> set secret"
    using splitOn_append [OF h, of "encodedPayload now @ ''.'' @ secret"]
      splitOn_append [OF p, of secret] splitOn_no_sep [OF that]
    by simp
  show ?thesis
    using dec lst by (simp add: token_segments)
qed


theorem signature_reveals_secret_witness:
  "CHR '':'' \<notin> set ''6489f2'' \<and> CHR '':'' \<notin> set ''c0ffee'' \<and> CHR ''.'' \<notin> set ''c0ffee''
   \<and> base64urlDecode (splitOn CHR ''.'' (generateGhostJWT 1700000000123 ''6489f2:c0ffee'') ! 2)
       = ''eyJhbGciOiJIUzI1NiIsInR5cCI6IkpXVCIsImtpZCI6IjY0ODlmMiJ9''
         @ ''.'' @ ''eyJpYXQiOjE3MDAwMDAwMDAsImV4cCI6MTcwMDAwMDMwMCwiYXVkIjoiL2FkbWluLyJ9''
         @ ''.'' @ ''c0ffee''
   \<and> last (splitOn CHR ''.''
        (base64urlDecode (splitOn CHR ''.'' (generateGhostJWT 1700000000123 ''6489f2:c0ffee'') ! 2)))
       = ''c0ffee''"
proof -
  have a: "CHR '':'' \<notin> set ''6489f2''" and b: "CHR '':'' \<notin> set ''c0ffee''"
    and c: "CHR ''.'' \<notin> set ''c0ffee''"
    by simp_all
  have H: "encodedHeader ''6489f2:c0ffee''
      = ''eyJhbGciOiJIUzI1NiIsInR5cCI6IkpXVCIsImtpZCI6IjY0ODlmMiJ9''"
    by (simp add: encodedHeader_def stringifyHeader_def quoteJSONString_def quoteJSONChar_def
        keyId_def base64urlEscape_def b64_def b64chars_def)
  have P: "encodedPayload 1700000000123
      = ''eyJpYXQiOjE3MDAwMDAwMDAsImV4cCI6MTcwMDAwMDMwMCwiYXVkIjoiL2FkbWluLyJ9''"
    by (simp add: encodedPayload_def stringifyPayload_def quoteJSONString_def quoteJSONChar_def
        base64urlEscape_def b64_def b64chars_def)
  show ?thesis
    using signature_reveals_secret [OF a b, of 1700000000123] a b c
    by (simp add: token_segments H P)
qed

text \<open>
  The definitions of SHA-256 and HMAC above give the published values: the digest of
  \<^verbatim>\<open>abc\<close> (FIPS 180-4) and test case 2 of RFC 4231.
\<close>

lemma sha256_abc:
  "map (of_char :: char \<Rightarrow> int) (sha256 ''abc'') =
     [0xba, 0x78, 0x16, 0xbf, 0x8f, 0x01, 0xcf, 0xea, 0x41, 0x41, 0x40, 0xde, 0x5d, 0xae, 0x22, 0x23,
      0xb0, 0x03, 0x61, 0xa3, 0x96, 0x17, 0x7a, 0x9c, 0xb4, 0x10, 0xff, 0x61, 0xf2, 0x00, 0x15, 0xad]"
  by code_simp

lemma hmacSha256_rfc4231_case2:
  "map (of_char :: char \<Rightarrow> int) (hmacSha256 ''Jefe'' ''what do ya want for nothing?'') =
     [0x5b, 0xdc, 0xc1, 0x46, 0xbf, 0x60, 0x75, 0x4e, 0x6a, 0x04, 0x24, 0x26, 0x08, 0x95, 0x75, 0xc7,
      0x5a, 0x00, 0x3f, 0x08, 0x9d, 0x27, 0x39, 0x83, 0x9d, 0xec, 0x58, 0xb9, 0x64, 0xec, 0x38, 0x43]"
  by code_simp

lemma length_sha256: "length (sha256 msg) = 32"
proof -
  have "length (stateBytes st) = 32" for st
    by (cases st rule: stateBytes.cases) simp
  then show ?thesis by (simp add: sha256_def Let_def)
qed

lemma length_hmacSha256: "length (hmacSha256 key msg) = 32"
  by (simp add: hmacSha256_def Let_def length_sha256)

lemma length_sextets: "length (sextets s) = (4 * length s + 2) div 3"
  by (induction s rule: sextets.induct) simp_all

lemma length_base64url: "length (base64urlEscape (btoa s)) = (4 * length s + 2) div 3"
  by (simp add: escape_btoa length_sextets)

lemma length_stringifyHeader: "36 \<le> length (stringifyHeader kid)"
  by (simp add: stringifyHeader_def quoteJSONString_def quoteJSONChar_def)

lemma length_signature: "67 \<le> length (signature now adminAPIKey)"
proof -
  have "48 \<le> length (encodedHeader adminAPIKey)"
    using length_stringifyHeader [of "keyId adminAPIKey"]
    by (simp add: encodedHeader_def length_base64url)
  then show ?thesis
    by (simp add: signature_def length_base64url)
qed

text \<open>
  For no admin key and at no time is the third segment the base64url text of an
  HMAC-SHA256 tag, whatever the key and the message of the tag: the tag has 32 bytes and
  its text 43 characters, the third segment at least 67.
\<close>

lemma signature_never_hmac:
  "signature now adminAPIKey \<noteq> base64urlEscape (btoa (hmacSha256 key msg))"
proof
  assume "signature now adminAPIKey = base64urlEscape (btoa (hmacSha256 key msg))"
  then have "length (signature now adminAPIKey) = 43"
    by (simp add: length_base64url length_hmacSha256)
  with length_signature [of now adminAPIKey] show False by simp
qed

lemma example_segments:
  "encodedHeader ''6489f2:c0ffee''
     = ''eyJhbGciOiJIUzI1NiIsInR5cCI6IkpXVCIsImtpZCI6IjY0ODlmMiJ9''"
  "encodedPayload 1700000000123
     = ''eyJpYXQiOjE3MDAwMDAwMDAsImV4cCI6MTcwMDAwMDMwMCwiYXVkIjoiL2FkbWluLyJ9''"
  "keySecret ''6489f2:c0ffee'' = Some ''c0ffee''"
  by (simp_all add: encodedHeader_def encodedPayload_def stringifyHeader_def stringifyPayload_def
      quoteJSONString_def quoteJSONChar_def keyId_def keySecret_def base64urlEscape_def b64_def
      b64chars_def)

text \<open>
  Claim C4 fails on the code. For the admin key \<^verbatim>\<open>6489f2:c0ffee\<close> at
  \<^verbatim>\<open>Date.now() = 1700000000123\<close> the third segment is the base64url text of the first two
  segments and the secret joined by dots, 176 characters long, and not the base64url text
  of the HMAC-SHA256 of \<open>encodedHeader.encodedPayload\<close> under the hex-decoded secret.
\<close>

theorem signature_is_plain_encoding:
  "signature 1700000000123 ''6489f2:c0ffee''
     = ''ZXlKaGJHY2lPaUpJVXpJMU5pSXNJblI1Y0NJNklrcFhWQ0lzSW10cFpDSTZJalkwT0RsbU1pSjkuZXlKcFlYUWlPakUzTURBd01EQXdNREFzSW1WNGNDSTZNVGN3TURBd01ETXdNQ3dpWVhWa0lqb2lMMkZrYldsdUx5SjkuYzBmZmVl''
   \<and> signature 1700000000123 ''6489f2:c0ffee''
     = base64urlEscape (btoa
         (encodedHeader ''6489f2:c0ffee'' @ ''.'' @ encodedPayload 1700000000123
          @ ''.'' @ ''c0ffee''))
   \<and> length (signature 1700000000123 ''6489f2:c0ffee'') = 176
   \<and> length (base64urlEscape (btoa (hmacSha256 (hexDecode ''c0ffee'')
         (encodedHeader ''6489f2:c0ffee'' @ ''.'' @ encodedPayload 1700000000123)))) = 43
   \<and> signature 1700000000123 ''6489f2:c0ffee''
     \<noteq> base64urlEscape (btoa (hmacSha256 (hexDecode ''c0ffee'')
         (encodedHeader ''6489f2:c0ffee'' @ ''.'' @ encodedPayload 1700000000123)))"
proof -
  have sig: "signature 1700000000123 ''6489f2:c0ffee''
     = ''ZXlKaGJHY2lPaUpJVXpJMU5pSXNJblI1Y0NJNklrcFhWQ0lzSW10cFpDSTZJalkwT0RsbU1pSjkuZXlKcFlYUWlPakUzTURBd01EQXdNREFzSW1WNGNDSTZNVGN3TURBd01ETXdNQ3dpWVhWa0lqb2lMMkZrYldsdUx5SjkuYzBmZmVl''"
    by (simp add: signature_def example_segments templateValue_def base64urlEscape_def b64_def
        b64chars_def)
  have enc: "signature 1700000000123 ''6489f2:c0ffee''
     = base64urlEscape (btoa
         (encodedHeader ''6489f2:c0ffee'' @ ''.'' @ encodedPayload 1700000000123
          @ ''.'' @ ''c0ffee''))"
    by (simp only: signature_def example_segments(3) templateValue_def option.case)
  have len: "length (signature 1700000000123 ''6489f2:c0ffee'') = 176"
    by (simp add: sig)
  have mac: "length (base64urlEscape (btoa (hmacSha256 (hexDecode ''c0ffee'')
         (encodedHeader ''6489f2:c0ffee'' @ ''.'' @ encodedPayload 1700000000123)))) = 43"
    by (simp add: length_base64url length_hmacSha256)
  from sig enc len mac signature_never_hmac show ?thesis
    by blast
qed

end
